theory Spec2Isabelle
  imports Main "HOL-Library.AList"
begin

section \<open>Covenant: the contract service of src/server/node/covenant.js\<close>

text \<open>
  The service keeps JSON documents. A document field that JavaScript may find
  \<^verbatim>\<open>undefined\<close> (or \<^verbatim>\<open>null\<close>) is an \<open>option\<close> here, \<open>None\<close> standing for both where the
  code does not tell them apart (it tests the field with \<^verbatim>\<open>!\<close> or \<^verbatim>\<open>||\<close>); the four
  request fields that the update route compares with \<^verbatim>\<open>undefined\<close> have a type of
  their own. Every other field has the type the create path gives it. A JavaScript object used as a dictionary (the signature map of a step)
  is an association list in insertion order, read with \<open>map_of\<close> and written with
  \<open>AList.update\<close> (overwrite in place, or append).
\<close>

subsection \<open>Documents\<close>

text \<open>The value installed under \<^verbatim>\<open>step.signatures[auth.pubKey]\<close> by the sign route.\<close>

record signature_record =
  sg_signature :: string
  sg_timestamp :: string
  sg_pubKey :: string
  sg_message :: string
  sg_signed_at :: string

text \<open>
  An entry of a signature map: \<^verbatim>\<open>null\<close> (written at creation for every participant)
  or a record. A key that is absent from the map reads as \<^verbatim>\<open>undefined\<close>, which is
  \<open>map_of m k = None\<close>.
\<close>

datatype sig_entry = Null | Signed signature_record

text \<open>
  A step, both as a client sends it and as it is stored: the update route stores
  the steps of the request as they come, so every field may be missing.
  \<open>st_magicSpell\<close> and \<open>st_magic_spell\<close> hold the opaque effect descriptor (its JSON
  text, a truthy value).
\<close>

record step =
  st_id :: "string option"
  st_description :: "string option"
  st_magicSpell :: "string option"
  st_magic_spell :: "string option"
  st_order :: "nat option"
  st_signatures :: "(string \<times> sig_entry) list option"
  st_completed :: "bool option"
  st_completedAt :: "string option"
  st_createdAt :: "string option"

record contract =
  c_uuid :: string
  c_title :: "string option"
  c_description :: "string option"
  c_participants :: "string list"
  c_steps :: "step list"
  c_productUuid :: "string option"
  c_bdoLocation :: "string option"
  c_createdAt :: string
  c_updatedAt :: string
  c_status :: "string option"
  c_creator :: string
  c_pubKey :: "string option"
  c_bdoUuid :: "string option"
  c_svgContent :: "string option"
  c_scgBdoUuid :: "string option"

text \<open>JavaScript truthiness of a string-valued field: present and not the empty string.\<close>

definition truthy :: "string option \<Rightarrow> bool" where
  "truthy x = (case x of None \<Rightarrow> False | Some s \<Rightarrow> s \<noteq> [])"

text \<open>Truthiness of a boolean field that may be missing (\<^verbatim>\<open>step.completed\<close>).\<close>

definition truthy_flag :: "bool option \<Rightarrow> bool" where
  "truthy_flag x = (x = Some True)"

subsection \<open>validateContract\<close>

text \<open>
  The messages returned by \<^verbatim>\<open>validateContract\<close>, in the order of its checks:
  'Contract must have a title', 'Contract must have at least 2 participants',
  'Contract must have at least one step', and 'Step N must have a description'
  with N the 1-based position of the step.
\<close>

datatype validation_error =
    MustHaveTitle
  | MustHaveTwoParticipants
  | MustHaveOneStep
  | StepMustHaveDescription nat

text \<open>The loop over \<^verbatim>\<open>contract.steps\<close>; \<open>i\<close> is the loop index.\<close>

fun validateSteps :: "nat \<Rightarrow> step list \<Rightarrow> validation_error option" where
  "validateSteps i [] = None"
| "validateSteps i (st # sts) =
     (if \<not> truthy (st_description st) then Some (StepMustHaveDescription (i + 1))
      else validateSteps (i + 1) sts)"

definition validateContract :: "contract \<Rightarrow> validation_error option" where
  "validateContract c =
     (if \<not> truthy (c_title c) then Some MustHaveTitle
      else if length (c_participants c) < 2 then Some MustHaveTwoParticipants
      else if length (c_steps c) = 0 then Some MustHaveOneStep
      else validateSteps 0 (c_steps c))"

subsection \<open>Keys, users, and what the process holds\<close>

record keys =
  k_pubKey :: string
  k_privateKey :: string

record user =
  u_uuid :: string
  u_pubKey :: "string option"
  u_createdAt :: string
  u_updatedAt :: string

text \<open>
  The files under \<^verbatim>\<open>data/\<close> and the two in-memory caches:
  \<open>contracts\<close> is \<^verbatim>\<open>contracts/<uuid>.json\<close>, \<open>keyFiles\<close> is \<^verbatim>\<open>keys/<pubKey>.json\<close>,
  \<open>mappingFile\<close> is \<^verbatim>\<open>keys/contract-pubkey-mapping.json\<close> (a missing file reads as the
  empty mapping on the write path and has no entry on the read path), \<open>users\<close> is
  \<^verbatim>\<open>users/<uuid>.json\<close>; \<open>keyCache\<close> and \<open>contractPubKeyMap\<close> are the two \<^verbatim>\<open>Map\<close>s.
\<close>

record state =
  contracts :: "string \<rightharpoonup> contract"
  keyFiles :: "string \<rightharpoonup> keys"
  keyCache :: "string \<rightharpoonup> keys"
  mappingFile :: "string \<rightharpoonup> string"
  contractPubKeyMap :: "string \<rightharpoonup> string"
  users :: "string \<rightharpoonup> user"

text \<open>
  What one request gets from its surroundings: the libraries (sessionless, bdo),
  the clock and the file system. \<open>e_verifySignature sig msg key\<close> is the result of
  \<^verbatim>\<open>sessionless.verifySignature(sig, msg, key)\<close>: \<open>Some True\<close> when the signature
  verifies, \<open>Some False\<close> when it does not, \<open>None\<close> when the call throws (as it does
  on a signature it cannot parse). \<open>e_clock n\<close> is the n-th reading of
  \<^verbatim>\<open>new Date().getTime() + ''\<close> in the request, \<open>e_generateUUID n\<close> the n-th result of
  \<^verbatim>\<open>sessionless.generateUUID()\<close>. \<open>e_generateKeys\<close> is the pair minted by
  \<^verbatim>\<open>sessionless.generateKeys(saveKeys, getKeys)\<close>, which hands it to \<^verbatim>\<open>saveKeys\<close>
  (\<open>None\<close>: the call throws). \<open>e_createUser\<close> and \<open>e_scgCreateUser\<close> are the record ids
  returned by the two \<^verbatim>\<open>bdo.createUser\<close> calls of a save (\<open>None\<close>: the call throws),
  \<open>e_getBDO\<close> the document \<^verbatim>\<open>bdoResult.bdo\<close> of \<^verbatim>\<open>bdo.getBDO\<close> on the read path (\<open>None\<close>:
  the call throws or returns no data). \<^verbatim>\<open>bdo.updateBDO\<close> and \<^verbatim>\<open>bdo.deleteUser\<close> are
  called inside a try whose catch only logs, so their outcome reaches nothing
  below. \<open>e_generateContractSVG\<close> stands for \<^verbatim>\<open>generateContractSVG\<close>, the string
  template that renders a contract (\<open>None\<close>: it throws); its result is only stored
  in \<^verbatim>\<open>svgContent\<close>. The three flags say whether the read and the write of the
  mapping file and the writes under \<^verbatim>\<open>contracts/\<close> and \<^verbatim>\<open>users/\<close> go through.
\<close>

record env =
  e_verifySignature :: "string \<Rightarrow> string \<Rightarrow> string option \<Rightarrow> bool option"
  e_clock :: "nat \<Rightarrow> string"
  e_generateUUID :: "nat \<Rightarrow> string"
  e_generateKeys :: "keys option"
  e_mappingReadOk :: bool
  e_mappingWriteOk :: bool
  e_createUser :: "string option"
  e_generateContractSVG :: "contract \<Rightarrow> string option"
  e_scgCreateUser :: "string option"
  e_getBDO :: "contract option"
  e_localWriteOk :: bool

subsection \<open>Key registry\<close>

definition saveKeys :: "state \<Rightarrow> keys \<Rightarrow> state" where
  "saveKeys s ks =
     s\<lparr>keyFiles := (keyFiles s)(k_pubKey ks \<mapsto> ks),
       keyCache := (keyCache s)(k_pubKey ks \<mapsto> ks)\<rparr>"

text \<open>\<open>None\<close> is the thrown 'Keys not found'; a hit on disk fills the cache.\<close>

definition getKeys :: "state \<Rightarrow> string \<Rightarrow> keys option \<times> state" where
  "getKeys s pubKey =
     (if pubKey = [] then (None, s)
      else case keyCache s pubKey of
        Some cachedKeys \<Rightarrow> (Some cachedKeys, s)
      | None \<Rightarrow>
          (case keyFiles s pubKey of
             Some ks \<Rightarrow> (Some ks, s\<lparr>keyCache := (keyCache s)(pubKey \<mapsto> ks)\<rparr>)
           | None \<Rightarrow> (None, s)))"

text \<open>
  The boolean is False when the function throws: on a failed read nothing has
  changed yet, on a failed write the cache already holds the new binding.
\<close>

definition saveContractPubKeyMapping ::
  "env \<Rightarrow> state \<Rightarrow> string \<Rightarrow> string \<Rightarrow> bool \<times> state" where
  "saveContractPubKeyMapping e s contractUuid pubKey =
     (if \<not> e_mappingReadOk e then (False, s)
      else
        let s1 = s\<lparr>contractPubKeyMap := (contractPubKeyMap s)(contractUuid \<mapsto> pubKey)\<rparr>
        in if \<not> e_mappingWriteOk e then (False, s1)
           else (True, s1\<lparr>mappingFile := (mappingFile s1)(contractUuid \<mapsto> pubKey)\<rparr>))"

text \<open>\<open>None\<close> is the thrown 'No pubKey mapping found' (or the missing file).\<close>

definition getContractPubKey :: "state \<Rightarrow> string \<Rightarrow> string option \<times> state" where
  "getContractPubKey s contractUuid =
     (case contractPubKeyMap s contractUuid of
        Some pubKey \<Rightarrow> (Some pubKey, s)
      | None \<Rightarrow>
          (case mappingFile s contractUuid of
             Some pubKey \<Rightarrow>
               if pubKey \<noteq> []
               then (Some pubKey,
                     s\<lparr>contractPubKeyMap := (contractPubKeyMap s)(contractUuid \<mapsto> pubKey)\<rparr>)
               else (None, s)
           | None \<Rightarrow> (None, s)))"

subsection \<open>Local store and replicated store\<close>

text \<open>\<open>None\<close> in the first component: \<^verbatim>\<open>fs.writeFile\<close> throws.\<close>

definition saveContract :: "env \<Rightarrow> state \<Rightarrow> contract \<Rightarrow> contract option \<times> state" where
  "saveContract e s c =
     (if e_localWriteOk e then (Some c, s\<lparr>contracts := (contracts s)(c_uuid c \<mapsto> c)\<rparr>)
      else (None, s))"

definition loadContract :: "state \<Rightarrow> string \<Rightarrow> contract option" where
  "loadContract s uuid = contracts s uuid"

text \<open>
  \<^verbatim>\<open>saveContractToBDO\<close>. Every throw inside its outer try lands in the outer catch,
  which saves the contract object as mutated so far. When \<^verbatim>\<open>bdo.createUser\<close>
  throws, the inner catch reads \<^verbatim>\<open>originalGetKeys\<close>, a \<^verbatim>\<open>const\<close> of the try block
  that is out of scope there: the catch itself throws before \<^verbatim>\<open>bdo.getBDO\<close> is
  reached, and the outer catch takes over.
\<close>

definition saveContractToBDO :: "env \<Rightarrow> state \<Rightarrow> contract \<Rightarrow> contract option \<times> state" where
  "saveContractToBDO e s c =
     (case e_generateKeys e of
        None \<Rightarrow> saveContract e s c
      | Some contractKeys \<Rightarrow>
          (case saveContractPubKeyMapping e (saveKeys s contractKeys) (c_uuid c)
                  (k_pubKey contractKeys) of
             (False, s1) \<Rightarrow> saveContract e s1 c
           | (True, s1) \<Rightarrow>
               let c1 = c\<lparr>c_pubKey := Some (k_pubKey contractKeys)\<rparr> in
               (case e_createUser e of
                  None \<Rightarrow> saveContract e s1 c1
                | Some bdoUuid \<Rightarrow>
                    let c2 = c1\<lparr>c_bdoUuid := Some bdoUuid\<rparr>;
                        c3 = (case e_generateContractSVG e c2 of
                                Some svg \<Rightarrow> c2\<lparr>c_svgContent := Some svg\<rparr>
                              | None \<Rightarrow> c2);
                        c4 = (case e_scgCreateUser e of
                                Some scgBdoUuid \<Rightarrow> c3\<lparr>c_scgBdoUuid := Some scgBdoUuid\<rparr>
                              | None \<Rightarrow> c3)
                    in (case saveContract e s1 c4 of
                          (Some saved, s2) \<Rightarrow> (Some saved, s2)
                        | (None, s2) \<Rightarrow> saveContract e s2 c4))))"

text \<open>
  \<^verbatim>\<open>loadContractFromBDO\<close>: the local copy unless it names a remote record, the
  mapping and the key pair are found, and the remote returns a document.
\<close>

definition loadContractFromBDO :: "env \<Rightarrow> state \<Rightarrow> string \<Rightarrow> contract option \<times> state" where
  "loadContractFromBDO e s uuid =
     (case loadContract s uuid of
        None \<Rightarrow> (None, s)
      | Some localContract \<Rightarrow>
          if \<not> truthy (c_bdoUuid localContract) then (Some localContract, s)
          else
            (case getContractPubKey s uuid of
               (None, s1) \<Rightarrow> (Some localContract, s1)
             | (Some contractPubKey, s1) \<Rightarrow>
                 (case getKeys s1 contractPubKey of
                    (None, s2) \<Rightarrow> (Some localContract, s2)
                  | (Some contractKeys, s2) \<Rightarrow>
                      (case e_getBDO e of
                         Some remote \<Rightarrow> (Some remote, s2)
                       | None \<Rightarrow> (Some localContract, s2)))))"

subsection \<open>Requests and responses\<close>

text \<open>
  A field of a request body as the update route sees it: \<^verbatim>\<open>updates[field]\<close> is
  \<^verbatim>\<open>undefined\<close> (the field is absent), \<^verbatim>\<open>null\<close>, or a value.
\<close>

datatype 'a jsfield = Undefined | JsNull | Defined 'a

text \<open>What \<^verbatim>\<open>x || ...\<close> and \<^verbatim>\<open>!x\<close> see of such a field: \<^verbatim>\<open>null\<close> and \<^verbatim>\<open>undefined\<close> alike.\<close>

definition given :: "'a jsfield \<Rightarrow> 'a option" where
  "given x = (case x of Defined v \<Rightarrow> Some v | _ \<Rightarrow> None)"

text \<open>
  The JSON body of a request (for \<^verbatim>\<open>GET /user/:uuid\<close>, its query). \<open>rq_other\<close> is
  every field of the body that no route reads by name.
\<close>

record request =
  rq_signature :: "string option"
  rq_timestamp :: "string option"
  rq_userUUID :: "string option"
  rq_pubKey :: "string option"
  rq_title :: "string jsfield"
  rq_description :: "string jsfield"
  rq_participants :: "string list option"
  rq_steps :: "step list jsfield"
  rq_status :: "string jsfield"
  rq_product_uuid :: "string option"
  rq_bdo_location :: "string option"
  rq_stepId :: "string option"
  rq_stepSignature :: "string option"
  rq_other :: "(string \<times> string) list"

text \<open>
  The \<^verbatim>\<open>error\<close> strings of the responses: 'Missing authentication fields: ...',
  'Invalid signature', 'Authentication failed', 'User not found', 'Contract not
  found', 'Not authorized to update this contract', 'User not authorized for this
  contract', 'Only the contract creator can delete this contract', 'stepId and
  stepSignature are required', 'Step not found', 'Invalid step signature', the
  message of \<^verbatim>\<open>validateContract\<close>, and the messages of the catch-all handlers.
\<close>

datatype failure =
    MissingAuthFields
  | InvalidSignature
  | AuthenticationFailed
  | UserNotFound
  | ContractNotFound
  | NotAuthorizedToUpdate
  | UserNotAuthorized
  | OnlyCreatorCanDelete
  | StepFieldsRequired
  | StepNotFound
  | InvalidStepSignature
  | ValidationFailed validation_error
  | FailedToCreateUser
  | FailedToCreateContract
  | FailedToUpdateContract
  | FailedToAddSignature
  | FailedToDeleteContract

text \<open>
  \<open>SignData contractUuid stepId stepCompleted magicTriggered\<close> is the \<^verbatim>\<open>data\<close> of a
  successful sign; the last two are \<open>None\<close> when the expression is \<^verbatim>\<open>undefined\<close>.
\<close>

datatype body =
    Failure failure
  | ContractData contract
  | SignData string string "bool option" "bool option"
  | UserData user
  | DeleteData string

record response =
  status :: nat
  body :: body

definition fail :: "nat \<Rightarrow> failure \<Rightarrow> response" where
  "fail code err = \<lparr>status = code, body = Failure err\<rparr>"

definition ok :: "body \<Rightarrow> response" where
  "ok b = \<lparr>status = 200, body = b\<rparr>"

text \<open>A field inside a string concatenation: \<^verbatim>\<open>undefined\<close> prints as its name.\<close>

definition str :: "string option \<Rightarrow> string" where
  "str x = (case x of None \<Rightarrow> ''undefined'' | Some s \<Rightarrow> s)"

text \<open>\<^verbatim>\<open>a + b\<close> on two fields; \<^verbatim>\<open>undefined + undefined\<close> is \<^verbatim>\<open>NaN\<close>.\<close>

definition js_plus :: "string option \<Rightarrow> string option \<Rightarrow> string" where
  "js_plus a b = (if a = None \<and> b = None then ''NaN'' else str a @ str b)"

text \<open>\<^verbatim>\<open>x || null\<close>.\<close>

definition or_null :: "string option \<Rightarrow> string option" where
  "or_null x = (if truthy x then x else None)"

subsection \<open>verifySessionlessAuth\<close>

record auth =
  a_message :: string
  a_signature :: string
  a_pubKey :: string
  a_userUUID :: string
  a_timestamp :: string

text \<open>
  \<open>None\<close>: \<^verbatim>\<open>sessionless.verifySignature\<close> throws, and the exception leaves the
  function; \<open>Some (Inl r)\<close>: the function has answered \<open>r\<close> and returns \<^verbatim>\<open>null\<close>;
  \<open>Some (Inr au)\<close>: it returns the authentication record.
\<close>

definition verifySessionlessAuth ::
  "env \<Rightarrow> request \<Rightarrow> string option \<Rightarrow> (response + auth) option" where
  "verifySessionlessAuth e rq contractUUID =
     (if \<not> truthy (rq_signature rq) \<or> \<not> truthy (rq_timestamp rq)
         \<or> \<not> truthy (rq_userUUID rq) \<or> \<not> truthy (rq_pubKey rq)
      then Some (Inl (fail 401 MissingAuthFields))
      else
        let message = (if truthy contractUUID
                       then str (rq_timestamp rq) @ str (rq_userUUID rq) @ str contractUUID
                       else str (rq_timestamp rq) @ str (rq_userUUID rq))
        in (case e_verifySignature e (str (rq_signature rq)) message (rq_pubKey rq) of
              None \<Rightarrow> None
            | Some verified \<Rightarrow>
                if \<not> verified then Some (Inl (fail 401 InvalidSignature))
                else Some (Inr \<lparr>a_message = message, a_signature = str (rq_signature rq),
                                a_pubKey = str (rq_pubKey rq), a_userUUID = str (rq_userUUID rq),
                                a_timestamp = str (rq_timestamp rq)\<rparr>)))"

subsection \<open>User routes\<close>

text \<open>
  \<^verbatim>\<open>PUT /user/create\<close>. A throw of the verifier lands in the catch-all of the
  route (500). After the user file is written the route logs
  \<^verbatim>\<open>pubKey.substring(0, 16)\<close>, which throws when the body has no \<^verbatim>\<open>pubKey\<close>.
\<close>

definition put_user_create :: "env \<Rightarrow> state \<Rightarrow> request \<Rightarrow> response \<times> state" where
  "put_user_create e s rq =
     (let message = js_plus (rq_timestamp rq) (rq_pubKey rq) in
      if \<not> truthy (rq_signature rq) then (fail 403 AuthenticationFailed, s)
      else
        (case e_verifySignature e (str (rq_signature rq)) message (rq_pubKey rq) of
           None \<Rightarrow> (fail 500 FailedToCreateUser, s)
         | Some verified \<Rightarrow>
             if \<not> verified then (fail 403 AuthenticationFailed, s)
             else
               let userUUID = e_generateUUID e 0;
                   u = \<lparr>u_uuid = userUUID, u_pubKey = rq_pubKey rq,
                        u_createdAt = e_clock e 0, u_updatedAt = e_clock e 1\<rparr>
               in if \<not> e_localWriteOk e then (fail 500 FailedToCreateUser, s)
                  else
                    let s1 = s\<lparr>users := (users s)(userUUID \<mapsto> u)\<rparr>
                    in if rq_pubKey rq = None then (fail 500 FailedToCreateUser, s1)
                       else (ok (UserData u), s1)))"

text \<open>
  \<^verbatim>\<open>GET /user/:uuid\<close>; \<open>rq_timestamp\<close> and \<open>rq_signature\<close> come from the query. The
  verifier is called inside the inner try, whose catch answers 404 'User not
  found' for whatever is thrown there.
\<close>

definition get_user :: "env \<Rightarrow> state \<Rightarrow> string \<Rightarrow> request \<Rightarrow> response \<times> state" where
  "get_user e s uuid rq =
     (case users s uuid of
        None \<Rightarrow> (fail 404 UserNotFound, s)
      | Some u \<Rightarrow>
          let message = js_plus (rq_timestamp rq) (Some uuid) in
          if \<not> truthy (rq_signature rq) then (fail 403 AuthenticationFailed, s)
          else
            (case e_verifySignature e (str (rq_signature rq)) message (u_pubKey u) of
               None \<Rightarrow> (fail 404 UserNotFound, s)
             | Some verified \<Rightarrow>
                 if \<not> verified then (fail 403 AuthenticationFailed, s)
                 else (ok (UserData u), s)))"

subsection \<open>POST /contract\<close>

text \<open>
  The \<^verbatim>\<open>map\<close> over the steps of the request: \<open>index\<close> is the position, \<open>u\<close> counts the
  UUIDs generated so far and \<open>t\<close> the clock readings.
\<close>

fun buildSteps :: "env \<Rightarrow> nat \<Rightarrow> nat \<Rightarrow> nat \<Rightarrow> step list \<Rightarrow> step list \<times> nat \<times> nat" where
  "buildSteps e index u t [] = ([], u, t)"
| "buildSteps e index u t (raw # raws) =
     (let st = \<lparr>st_id = (if truthy (st_id raw) then st_id raw else Some (e_generateUUID e u)),
                st_description = st_description raw,
                st_magicSpell = (if truthy (st_magicSpell raw) then st_magicSpell raw
                                 else or_null (st_magic_spell raw)),
                st_magic_spell = None,
                st_order = Some index,
                st_signatures = Some [],
                st_completed = Some False,
                st_completedAt = None,
                st_createdAt = Some (e_clock e t)\<rparr>;
          (sts, u', t') = buildSteps e (index + 1) (if truthy (st_id raw) then u else u + 1)
                            (t + 1) raws
      in (st # sts, u', t'))"

text \<open>\<^verbatim>\<open>step.signatures[participant] = null\<close> for each participant, in order.\<close>

definition initSignatures :: "string list \<Rightarrow> step \<Rightarrow> step" where
  "initSignatures participants st =
     st\<lparr>st_signatures :=
          map_option (\<lambda>m. foldl (\<lambda>m participant. AList.update participant Null m) m participants)
            (st_signatures st)\<rparr>"

text \<open>
  The contract object built by the route: the first UUID is the contract's, the
  steps take the next ones, and the two timestamps are read after those of the
  steps.
\<close>

definition newContract :: "env \<Rightarrow> request \<Rightarrow> auth \<Rightarrow> contract" where
  "newContract e rq au =
     (let (sts, u, t) = buildSteps e 0 1 0
                          (case given (rq_steps rq) of None \<Rightarrow> [] | Some x \<Rightarrow> x)
      in \<lparr>c_uuid = e_generateUUID e 0,
          c_title = given (rq_title rq),
          c_description = (if truthy (given (rq_description rq)) then given (rq_description rq)
                           else Some []),
          c_participants = (case rq_participants rq of None \<Rightarrow> [] | Some ps \<Rightarrow> ps),
          c_steps = sts,
          c_productUuid = or_null (rq_product_uuid rq),
          c_bdoLocation = or_null (rq_bdo_location rq),
          c_createdAt = e_clock e t,
          c_updatedAt = e_clock e (t + 1),
          c_status = Some ''active'',
          c_creator = a_pubKey au,
          c_pubKey = None, c_bdoUuid = None, c_svgContent = None, c_scgBdoUuid = None\<rparr>)"

definition post_contract :: "env \<Rightarrow> state \<Rightarrow> request \<Rightarrow> response \<times> state" where
  "post_contract e s rq =
     (case verifySessionlessAuth e rq None of
        None \<Rightarrow> (fail 500 FailedToCreateContract, s)
      | Some (Inl r) \<Rightarrow> (r, s)
      | Some (Inr au) \<Rightarrow>
          let c = newContract e rq au
          in (case validateContract c of
                Some validationError \<Rightarrow> (fail 400 (ValidationFailed validationError), s)
              | None \<Rightarrow>
                  (case saveContractToBDO e s
                          (c\<lparr>c_steps := map (initSignatures (c_participants c)) (c_steps c)\<rparr>) of
                     (None, s1) \<Rightarrow> (fail 500 FailedToCreateContract, s1)
                   | (Some saved, s1) \<Rightarrow> (ok (ContractData saved), s1))))"

subsection \<open>GET /contract/:uuid\<close>

definition get_contract :: "env \<Rightarrow> state \<Rightarrow> string \<Rightarrow> response \<times> state" where
  "get_contract e s uuid =
     (case loadContractFromBDO e s uuid of
        (None, s1) \<Rightarrow> (fail 404 ContractNotFound, s1)
      | (Some c, s1) \<Rightarrow> (ok (ContractData c), s1))"

subsection \<open>PUT /contract/:uuid\<close>

text \<open>
  The \<^verbatim>\<open>allowedFields\<close> loop and the refreshed \<^verbatim>\<open>updatedAt\<close>: a field of the
  request replaces the stored one unless it is \<^verbatim>\<open>undefined\<close>, so \<^verbatim>\<open>null\<close> is
  assigned too. A \<^verbatim>\<open>null\<close> title, description or status is the \<open>None\<close> of the
  contract field. A \<^verbatim>\<open>null\<close> \<^verbatim>\<open>steps\<close> is written here as the empty list: the
  validation that follows answers 'Contract must have at least one step' for
  \<^verbatim>\<open>!contract.steps\<close> and for \<^verbatim>\<open>contract.steps.length === 0\<close> in the same test, and
  nothing is stored.
\<close>

definition applyUpdates :: "env \<Rightarrow> request \<Rightarrow> contract \<Rightarrow> contract" where
  "applyUpdates e updates c =
     c\<lparr>c_title := (case rq_title updates of
                     Undefined \<Rightarrow> c_title c | JsNull \<Rightarrow> None | Defined v \<Rightarrow> Some v),
       c_description := (case rq_description updates of
                           Undefined \<Rightarrow> c_description c | JsNull \<Rightarrow> None
                         | Defined v \<Rightarrow> Some v),
       c_steps := (case rq_steps updates of
                     Undefined \<Rightarrow> c_steps c | JsNull \<Rightarrow> [] | Defined v \<Rightarrow> v),
       c_status := (case rq_status updates of
                      Undefined \<Rightarrow> c_status c | JsNull \<Rightarrow> None | Defined v \<Rightarrow> Some v),
       c_updatedAt := e_clock e 0\<rparr>"

definition put_contract :: "env \<Rightarrow> state \<Rightarrow> string \<Rightarrow> request \<Rightarrow> response \<times> state" where
  "put_contract e s uuid rq =
     (case verifySessionlessAuth e rq (Some uuid) of
        None \<Rightarrow> (fail 500 FailedToUpdateContract, s)
      | Some (Inl r) \<Rightarrow> (r, s)
      | Some (Inr au) \<Rightarrow>
          (case loadContractFromBDO e s uuid of
             (None, s1) \<Rightarrow> (fail 404 ContractNotFound, s1)
           | (Some c, s1) \<Rightarrow>
               if \<not> (c_creator c = a_pubKey au \<or> a_pubKey au \<in> set (c_participants c))
               then (fail 403 NotAuthorizedToUpdate, s1)
               else
                 (case validateContract (applyUpdates e rq c) of
                    Some validationError \<Rightarrow> (fail 400 (ValidationFailed validationError), s1)
                  | None \<Rightarrow>
                      (case saveContractToBDO e s1 (applyUpdates e rq c) of
                         (None, s2) \<Rightarrow> (fail 500 FailedToUpdateContract, s2)
                       | (Some saved, s2) \<Rightarrow> (ok (ContractData saved), s2)))))"

subsection \<open>PUT /contract/:uuid/sign\<close>

text \<open>
  The object found by \<^verbatim>\<open>contract.steps.find\<close> is mutated in place: the first
  element that satisfies the test is replaced, the others stay.
\<close>

fun update_first :: "('a \<Rightarrow> bool) \<Rightarrow> ('a \<Rightarrow> 'a) \<Rightarrow> 'a list \<Rightarrow> 'a list" where
  "update_first P f [] = []"
| "update_first P f (x # xs) = (if P x then f x # xs else x # update_first P f xs)"

text \<open>
  \<^verbatim>\<open>contract.participants.every(participant => step.signatures[participant] !== null)\<close>:
  an entry that is absent is \<^verbatim>\<open>undefined\<close>, which is not \<^verbatim>\<open>null\<close>.
\<close>

definition allSigned :: "string list \<Rightarrow> (string \<times> sig_entry) list \<Rightarrow> bool" where
  "allSigned participants signatures =
     list_all (\<lambda>participant. map_of signatures participant \<noteq> Some Null) participants"

text \<open>
  The assignment \<^verbatim>\<open>step.signatures[auth.pubKey] = {...}\<close> on the signature map \<open>m\<close>;
  \<open>e_clock e 0\<close> is \<^verbatim>\<open>signed_at\<close>.
\<close>

definition installSignature ::
  "env \<Rightarrow> auth \<Rightarrow> string \<Rightarrow> string \<Rightarrow> (string \<times> sig_entry) list \<Rightarrow> (string \<times> sig_entry) list" where
  "installSignature e au stepSignature stepMessage m =
     AList.update (a_pubKey au)
       (Signed \<lparr>sg_signature = stepSignature, sg_timestamp = a_timestamp au,
                sg_pubKey = a_pubKey au, sg_message = stepMessage,
                sg_signed_at = e_clock e 0\<rparr>) m"

text \<open>
  The writes to the step between 'Add signature' and the save; \<open>e_clock e 1\<close> is
  \<^verbatim>\<open>completedAt\<close> when the branch is taken.
\<close>

definition addSignature ::
  "env \<Rightarrow> auth \<Rightarrow> string \<Rightarrow> string \<Rightarrow> string list \<Rightarrow> (string \<times> sig_entry) list \<Rightarrow> step \<Rightarrow> step" where
  "addSignature e au stepSignature stepMessage participants m st =
     (let signatures = installSignature e au stepSignature stepMessage m;
          st1 = st\<lparr>st_signatures := Some signatures\<rparr>
      in if allSigned participants signatures \<and> \<not> truthy_flag (st_completed st1)
         then st1\<lparr>st_completed := Some True, st_completedAt := Some (e_clock e 1)\<rparr>
         else st1)"

text \<open>\<^verbatim>\<open>step.completed && !!step.magicSpell\<close>: a falsy left operand is the result.\<close>

definition magicTriggered :: "step \<Rightarrow> bool option" where
  "magicTriggered st =
     (if truthy_flag (st_completed st) then Some (truthy (st_magicSpell st)) else st_completed st)"

text \<open>
  A throw of the verifier (at the endpoint check or at the step signature) and
  the assignment into a step without a \<^verbatim>\<open>signatures\<close> object land in the
  catch-all of the route, which answers 500 'Failed to add signature'.
\<close>

definition put_contract_sign :: "env \<Rightarrow> state \<Rightarrow> string \<Rightarrow> request \<Rightarrow> response \<times> state" where
  "put_contract_sign e s uuid rq =
     (case verifySessionlessAuth e rq (Some uuid) of
        None \<Rightarrow> (fail 500 FailedToAddSignature, s)
      | Some (Inl r) \<Rightarrow> (r, s)
      | Some (Inr au) \<Rightarrow>
          (case loadContractFromBDO e s uuid of
             (None, s1) \<Rightarrow> (fail 404 ContractNotFound, s1)
           | (Some c, s1) \<Rightarrow>
               if a_pubKey au \<notin> set (c_participants c) then (fail 403 UserNotAuthorized, s1)
               else if \<not> truthy (rq_stepId rq) \<or> \<not> truthy (rq_stepSignature rq)
               then (fail 400 StepFieldsRequired, s1)
               else
                 (case find (\<lambda>st. st_id st = rq_stepId rq) (c_steps c) of
                    None \<Rightarrow> (fail 404 StepNotFound, s1)
                  | Some st \<Rightarrow>
                      let stepMessage = a_timestamp au @ a_userUUID au @ uuid @ str (rq_stepId rq) in
                      (case e_verifySignature e (str (rq_stepSignature rq)) stepMessage
                              (Some (a_pubKey au)) of
                         None \<Rightarrow> (fail 500 FailedToAddSignature, s1)
                       | Some stepVerified \<Rightarrow>
                           if \<not> stepVerified then (fail 401 InvalidStepSignature, s1)
                           else
                             (case st_signatures st of
                                None \<Rightarrow> (fail 500 FailedToAddSignature, s1)
                              | Some m \<Rightarrow>
                                  let st' = addSignature e au (str (rq_stepSignature rq))
                                              stepMessage (c_participants c) m st;
                                      c' = c\<lparr>c_steps :=
                                               update_first (\<lambda>st. st_id st = rq_stepId rq)
                                                 (\<lambda>_. st') (c_steps c),
                                             c_updatedAt :=
                                               e_clock e
                                                 (if allSigned (c_participants c)
                                                       (installSignature e au
                                                          (str (rq_stepSignature rq)) stepMessage m)
                                                     \<and> \<not> truthy_flag (st_completed st)
                                                  then 2 else 1)\<rparr>
                                  in (case saveContractToBDO e s1 c' of
                                        (None, s2) \<Rightarrow> (fail 500 FailedToAddSignature, s2)
                                      | (Some saved, s2) \<Rightarrow>
                                          (ok (SignData uuid (str (rq_stepId rq))
                                                 (st_completed st') (magicTriggered st')),
                                           s2)))))))"

text \<open>
  The condition of the step-signature check, read off the request: the message
  is \<^verbatim>\<open>auth.timestamp + auth.userUUID + uuid + stepId\<close>, the key \<^verbatim>\<open>auth.pubKey\<close>, and
  \<^verbatim>\<open>auth\<close> repeats the fields of the body.
\<close>

definition stepMessage :: "request \<Rightarrow> string \<Rightarrow> string" where
  "stepMessage rq uuid =
     str (rq_timestamp rq) @ str (rq_userUUID rq) @ uuid @ str (rq_stepId rq)"

definition stepSignatureVerifies :: "env \<Rightarrow> request \<Rightarrow> string \<Rightarrow> bool" where
  "stepSignatureVerifies e rq uuid =
     (e_verifySignature e (str (rq_stepSignature rq)) (stepMessage rq uuid) (rq_pubKey rq)
        = Some True)"

subsection \<open>DELETE /contract/:uuid\<close>

text \<open>\<^verbatim>\<open>fs.unlink\<close> throws when the file is missing or cannot be removed.\<close>

definition delete_contract :: "env \<Rightarrow> state \<Rightarrow> string \<Rightarrow> request \<Rightarrow> response \<times> state" where
  "delete_contract e s uuid rq =
     (case verifySessionlessAuth e rq (Some uuid) of
        None \<Rightarrow> (fail 500 FailedToDeleteContract, s)
      | Some (Inl r) \<Rightarrow> (r, s)
      | Some (Inr au) \<Rightarrow>
          (case loadContractFromBDO e s uuid of
             (None, s1) \<Rightarrow> (fail 404 ContractNotFound, s1)
           | (Some c, s1) \<Rightarrow>
               if c_creator c \<noteq> a_pubKey au then (fail 403 OnlyCreatorCanDelete, s1)
               else if \<not> e_localWriteOk e \<or> contracts s1 uuid = None
               then (fail 500 FailedToDeleteContract, s1)
               else (ok (DeleteData uuid), s1\<lparr>contracts := (contracts s1)(uuid := None)\<rparr>)))"

section \<open>A concrete deployment\<close>

text \<open>
  Concrete values on which the theorems below are instantiated. The signature
  scheme is a stand-in: the signature of a message under a key is the key, a
  colon and the message. A string without a colon stands for a signature that
  the library cannot parse: the verifier throws on it. A string with a colon
  that is not the signature of the message under the key stands for a
  well-formed signature that does not verify.
\<close>

definition demo_sign :: "string \<Rightarrow> string \<Rightarrow> string" where
  "demo_sign k msg = k @ '':'' @ msg"

definition demo_verify :: "string \<Rightarrow> string \<Rightarrow> string option \<Rightarrow> bool option" where
  "demo_verify sg msg pk =
     (if CHR '':'' \<notin> set sg then None
      else case pk of None \<Rightarrow> None | Some k \<Rightarrow> Some (sg = demo_sign k msg))"

definition demo_env :: env where
  "demo_env =
     \<lparr>e_verifySignature = demo_verify,
      e_clock = (\<lambda>n. ''170'' @ replicate n CHR ''0''),
      e_generateUUID = (\<lambda>n. ''u'' @ replicate n CHR ''x''),
      e_generateKeys = Some \<lparr>k_pubKey = ''K1'', k_privateKey = ''p1''\<rparr>,
      e_mappingReadOk = True,
      e_mappingWriteOk = True,
      e_createUser = Some ''B1'',
      e_generateContractSVG = (\<lambda>c. Some ''svg''),
      e_scgCreateUser = Some ''G1'',
      e_getBDO = None,
      e_localWriteOk = True\<rparr>"

text \<open>The same deployment with the remote object store unreachable.\<close>

definition offline_env :: env where
  "offline_env = demo_env\<lparr>e_createUser := None, e_scgCreateUser := None, e_getBDO := None\<rparr>"

text \<open>The same deployment at a later request, where key generation yields another pair.\<close>

definition later_env :: env where
  "later_env =
     demo_env\<lparr>e_generateKeys := Some \<lparr>k_pubKey = ''K2'', k_privateKey = ''p2''\<rparr>,
              e_createUser := Some ''B2''\<rparr>"

definition empty_state :: state where
  "empty_state =
     \<lparr>contracts = Map.empty, keyFiles = Map.empty, keyCache = Map.empty,
      mappingFile = Map.empty, contractPubKeyMap = Map.empty, users = Map.empty\<rparr>"

definition empty_request :: request where
  "empty_request =
     \<lparr>rq_signature = None, rq_timestamp = None, rq_userUUID = None, rq_pubKey = None,
      rq_title = Undefined, rq_description = Undefined, rq_participants = None,
      rq_steps = Undefined, rq_status = Undefined, rq_product_uuid = None, rq_bdo_location = None, rq_stepId = None,
      rq_stepSignature = None, rq_other = []\<rparr>"

text \<open>
  A request of user \<open>uu\<close> with key \<open>pk\<close> at time \<open>ts\<close>, its endpoint signature made
  over \<open>ts @ uu @ target\<close>.
\<close>

definition signed_request :: "string \<Rightarrow> string \<Rightarrow> string \<Rightarrow> string \<Rightarrow> request" where
  "signed_request pk uu ts target =
     empty_request\<lparr>rq_signature := Some (demo_sign pk (ts @ uu @ target)),
                   rq_timestamp := Some ts, rq_userUUID := Some uu, rq_pubKey := Some pk\<rparr>"

text \<open>The sign request of that user for step \<open>sid\<close> of contract \<open>cid\<close>.\<close>

definition sign_request :: "string \<Rightarrow> string \<Rightarrow> string \<Rightarrow> string \<Rightarrow> string \<Rightarrow> request" where
  "sign_request pk uu ts cid sid =
     (signed_request pk uu ts cid)
       \<lparr>rq_stepId := Some sid, rq_stepSignature := Some (demo_sign pk (ts @ uu @ cid @ sid))\<rparr>"

definition demo_step :: step where
  "demo_step =
     \<lparr>st_id = Some ''s1'', st_description = Some ''Ship it'', st_magicSpell = Some ''pay'',
      st_magic_spell = None, st_order = Some 0,
      st_signatures = Some [(''Pa'', Null), (''Pb'', Null)],
      st_completed = Some False, st_completedAt = None, st_createdAt = Some ''170''\<rparr>"

definition demo_contract :: contract where
  "demo_contract =
     \<lparr>c_uuid = ''c1'', c_title = Some ''Deal'', c_description = Some [],
      c_participants = [''Pa'', ''Pb''], c_steps = [demo_step],
      c_productUuid = None, c_bdoLocation = None,
      c_createdAt = ''170'', c_updatedAt = ''170'', c_status = Some ''active'',
      c_creator = ''Pa'', c_pubKey = Some ''K0'', c_bdoUuid = None,
      c_svgContent = None, c_scgBdoUuid = None\<rparr>"

definition demo_state :: state where
  "demo_state = empty_state\<lparr>contracts := [''c1'' \<mapsto> demo_contract]\<rparr>"

text \<open>
  Scenario S4: the endpoint signature is the caller's, the step signature is
  made with another participant's key.
\<close>

definition forged_request :: request where
  "forged_request =
     (sign_request ''Pa'' ''ua'' ''9'' ''c1'' ''s1'')
       \<lparr>rq_stepSignature := Some (demo_sign ''Pb'' ''9uac1s1'')\<rparr>"

text \<open>The contract after both participants have signed its step.\<close>

definition completed_step :: step where
  "completed_step =
     demo_step
       \<lparr>st_signatures :=
          Some [(''Pa'', Signed \<lparr>sg_signature = ''Pa:7uac1s1'', sg_timestamp = ''7'',
                                  sg_pubKey = ''Pa'', sg_message = ''7uac1s1'',
                                  sg_signed_at = ''171''\<rparr>),
                (''Pb'', Signed \<lparr>sg_signature = ''Pb:8ubc1s1'', sg_timestamp = ''8'',
                                  sg_pubKey = ''Pb'', sg_message = ''8ubc1s1'',
                                  sg_signed_at = ''172''\<rparr>)],
        st_completed := Some True, st_completedAt := Some ''172''\<rparr>"

definition completed_state :: state where
  "completed_state =
     empty_state\<lparr>contracts := [''c1'' \<mapsto> demo_contract\<lparr>c_steps := [completed_step]\<rparr>]\<rparr>"

text \<open>
  An update that replaces the steps wholesale by one step whose signature map
  is empty.
\<close>

definition replaced_step :: step where
  "replaced_step =
     \<lparr>st_id = Some ''s2'', st_description = Some ''Pay'', st_magicSpell = None,
      st_magic_spell = None, st_order = Some 0, st_signatures = Some [],
      st_completed = Some False, st_completedAt = None, st_createdAt = None\<rparr>"

definition replace_request :: request where
  "replace_request =
     (signed_request ''Pa'' ''ua'' ''9'' ''c1'')\<lparr>rq_steps := Defined [replaced_step]\<rparr>"

text \<open>Scenario S2 after the first signature: \<open>Pa\<close> has signed, \<open>Pb\<close> has not.\<close>

definition half_signed_step :: step where
  "half_signed_step =
     demo_step
       \<lparr>st_signatures :=
          Some [(''Pa'', Signed \<lparr>sg_signature = ''Pa:7uac1s1'', sg_timestamp = ''7'',
                                  sg_pubKey = ''Pa'', sg_message = ''7uac1s1'',
                                  sg_signed_at = ''171''\<rparr>),
                (''Pb'', Null)]\<rparr>"

definition half_signed_state :: state where
  "half_signed_state =
     empty_state\<lparr>contracts := [''c1'' \<mapsto> demo_contract\<lparr>c_steps := [half_signed_step]\<rparr>]\<rparr>"

text \<open>What the process holds after that update, and the contract it has stored.\<close>

definition replaced_state :: state where
  "replaced_state = snd (put_contract demo_env demo_state ''c1'' replace_request)"

definition replaced_contract :: contract where
  "replaced_contract =
     demo_contract\<lparr>c_steps := [replaced_step], c_updatedAt := ''170'', c_pubKey := Some ''K1'',
                   c_bdoUuid := Some ''B1'', c_svgContent := Some ''svg'',
                   c_scgBdoUuid := Some ''G1''\<rparr>"

text \<open>Scenario S1: the create request of \<open>Pa\<close>, and what the process holds after it.\<close>

definition create_request :: request where
  "create_request =
     (signed_request ''Pa'' ''ua'' ''9'' [])
       \<lparr>rq_title := Defined ''Deal'', rq_participants := Some [''Pa'', ''Pb''],
        rq_steps := Defined [\<lparr>st_id = None, st_description = Some ''Ship it'',
                           st_magicSpell = None, st_magic_spell = None, st_order = None,
                           st_signatures = None, st_completed = None, st_completedAt = None,
                           st_createdAt = None\<rparr>]\<rparr>"

definition created_state :: state where
  "created_state = snd (post_contract demo_env empty_state create_request)"

text \<open>An update of the title alone, by \<open>Pa\<close>, for the contract \<open>cid\<close>.\<close>

definition title_request :: "string \<Rightarrow> request" where
  "title_request cid = (signed_request ''Pa'' ''ua'' ''9'' cid)\<lparr>rq_title := Defined ''New deal''\<rparr>"

text \<open>
  Two requests to create a user: one whose signature is well-formed but made
  with another key, one whose signature cannot be parsed.
\<close>

definition wrong_user_request :: request where
  "wrong_user_request =
     empty_request\<lparr>rq_signature := Some (demo_sign ''Px'' ''9Pa''), rq_timestamp := Some ''9'',
                   rq_pubKey := Some ''Pa''\<rparr>"

definition garbled_user_request :: request where
  "garbled_user_request =
     empty_request\<lparr>rq_signature := Some ''bad'', rq_timestamp := Some ''9'',
                   rq_pubKey := Some ''Pa''\<rparr>"

text \<open>
  A sign request of \<open>Pa\<close> whose endpoint signature is good and whose step
  signature cannot be parsed.
\<close>

definition garbled_request :: request where
  "garbled_request =
     (sign_request ''Pa'' ''ua'' ''9'' ''c1'' ''s1'')\<lparr>rq_stepSignature := Some ''zz''\<rparr>"

text \<open>
  An update that replaces the steps by one step marked completed although no
  participant has signed it, and what the process holds after that update.
\<close>

definition premature_step :: step where
  "premature_step =
     \<lparr>st_id = Some ''s3'', st_description = Some ''Pay'', st_magicSpell = None,
      st_magic_spell = None, st_order = Some 0,
      st_signatures = Some [(''Pa'', Null), (''Pb'', Null)],
      st_completed = Some True, st_completedAt = None, st_createdAt = None\<rparr>"

definition premature_request :: request where
  "premature_request =
     (signed_request ''Pa'' ''ua'' ''9'' ''c1'')\<lparr>rq_steps := Defined [premature_step]\<rparr>"

definition premature_state :: state where
  "premature_state = snd (put_contract demo_env demo_state ''c1'' premature_request)"

section \<open>Properties\<close>


subsection \<open>Evaluating the concrete deployment\<close>

lemmas model_defs =
  put_contract_sign_def put_contract_def post_contract_def newContract_def get_contract_def
  delete_contract_def put_user_create_def get_user_def verifySessionlessAuth_def
  loadContractFromBDO_def loadContract_def getContractPubKey_def getKeys_def
  saveContractToBDO_def saveContract_def saveContractPubKeyMapping_def saveKeys_def
  addSignature_def installSignature_def allSigned_def magicTriggered_def
  applyUpdates_def initSignatures_def validateContract_def
  truthy_def truthy_flag_def str_def js_plus_def or_null_def given_def fail_def ok_def
  Let_def

lemmas demo_defs =
  demo_env_def offline_env_def later_env_def demo_verify_def demo_sign_def
  empty_state_def empty_request_def signed_request_def sign_request_def
  demo_step_def demo_contract_def demo_state_def forged_request_def
  completed_step_def completed_state_def replaced_step_def replace_request_def
  half_signed_step_def half_signed_state_def replaced_state_def replaced_contract_def
  create_request_def created_state_def title_request_def wrong_user_request_def garbled_user_request_def
  garbled_request_def premature_step_def premature_request_def premature_state_def

lemma str_Some [simp]: "str (Some x) = x"
  by (simp add: str_def)

lemma given_simps [simp]:
  "given Undefined = None" "given JsNull = None" "given (Defined v) = Some v"
  by (simp_all add: given_def)


subsection \<open>The store under a save and a load\<close>

lemma saveContract_cases:
  "saveContract e s c = (r, s') \<Longrightarrow>
     (e_localWriteOk e \<and> r = Some c \<and> s' = s\<lparr>contracts := (contracts s)(c_uuid c \<mapsto> c)\<rparr>)
     \<or> (\<not> e_localWriteOk e \<and> r = None \<and> s' = s)"
  by (auto simp: saveContract_def split: if_splits)

lemma saveKeys_frame:
  "contracts (saveKeys s ks) = contracts s" "users (saveKeys s ks) = users s"
  "mappingFile (saveKeys s ks) = mappingFile s"
  "contractPubKeyMap (saveKeys s ks) = contractPubKeyMap s"
  by (simp_all add: saveKeys_def)

lemma saveContractPubKeyMapping_frame:
  "saveContractPubKeyMapping e s u pk = (b, s') \<Longrightarrow>
     contracts s' = contracts s \<and> users s' = users s \<and> keyFiles s' = keyFiles s
     \<and> keyCache s' = keyCache s"
  by (auto simp: saveContractPubKeyMapping_def Let_def split: if_splits)

lemma saveContractToBDO_Some:
  assumes "saveContractToBDO e s c = (Some c', s')"
  shows "e_localWriteOk e"
    and "contracts s' = (contracts s)(c_uuid c \<mapsto> c')"
    and "users s' = users s"
  using assms
  unfolding saveContractToBDO_def
  by (auto simp: Let_def saveKeys_frame split: option.splits prod.splits bool.splits
      dest!: saveContract_cases saveContractPubKeyMapping_frame)

lemma saveContractToBDO_frame:
  assumes "saveContractToBDO e s c = (Some c', s')"
  shows "c_uuid c' = c_uuid c \<and> c_title c' = c_title c \<and> c_description c' = c_description c
     \<and> c_participants c' = c_participants c \<and> c_steps c' = c_steps c
     \<and> c_productUuid c' = c_productUuid c \<and> c_bdoLocation c' = c_bdoLocation c
     \<and> c_createdAt c' = c_createdAt c \<and> c_updatedAt c' = c_updatedAt c
     \<and> c_status c' = c_status c \<and> c_creator c' = c_creator c"
  using assms
  unfolding saveContractToBDO_def
  by (auto simp: Let_def split: option.splits prod.splits bool.splits
      dest!: saveContract_cases)

lemma saveContractToBDO_None:
  assumes "saveContractToBDO e s c = (None, s')"
  shows "\<not> e_localWriteOk e" and "contracts s' = contracts s" and "users s' = users s"
  using assms
  unfolding saveContractToBDO_def
  by (auto simp: Let_def saveKeys_frame split: option.splits prod.splits bool.splits
      dest!: saveContract_cases saveContractPubKeyMapping_frame)

lemma saveContractToBDO_total:
  "e_localWriteOk e \<Longrightarrow> \<exists>c' s'. saveContractToBDO e s c = (Some c', s')"
  unfolding saveContractToBDO_def
  by (auto simp: Let_def saveContract_def split: option.splits prod.splits bool.splits)

lemma getContractPubKey_frame:
  "getContractPubKey s u = (r, s') \<Longrightarrow>
     contracts s' = contracts s \<and> users s' = users s \<and> keyFiles s' = keyFiles s
     \<and> keyCache s' = keyCache s \<and> mappingFile s' = mappingFile s"
  by (auto simp: getContractPubKey_def split: option.splits if_splits)

lemma getKeys_frame:
  "getKeys s pk = (r, s') \<Longrightarrow>
     contracts s' = contracts s \<and> users s' = users s \<and> keyFiles s' = keyFiles s
     \<and> mappingFile s' = mappingFile s \<and> contractPubKeyMap s' = contractPubKeyMap s"
  by (auto simp: getKeys_def split: option.splits if_splits)

lemma loadContractFromBDO_frame:
  assumes "loadContractFromBDO e s u = (r, s')"
  shows "contracts s' = contracts s \<and> users s' = users s \<and> keyFiles s' = keyFiles s
     \<and> mappingFile s' = mappingFile s"
  using assms
  unfolding loadContractFromBDO_def
  by (auto split: option.splits prod.splits if_splits
      dest!: getContractPubKey_frame getKeys_frame)

lemma loadContractFromBDO_local:
  "contracts s u = Some c \<Longrightarrow> \<not> truthy (c_bdoUuid c) \<Longrightarrow>
     loadContractFromBDO e s u = (Some c, s)"
  by (simp add: loadContractFromBDO_def loadContract_def)

lemma find_update_first:
  "find P xs = Some x \<Longrightarrow> P y \<Longrightarrow> find P (update_first P (\<lambda>_. y) xs) = Some y"
  by (induction xs) (auto split: if_splits)


subsection \<open>Validation\<close>

lemma validateSteps_None:
  "validateSteps i sts = None \<longleftrightarrow> list_all (\<lambda>st. truthy (st_description st)) sts"
  by (induction sts arbitrary: i) auto

lemma validateSteps_Some:
  "validateSteps i sts = Some err \<Longrightarrow> \<exists>n. err = StepMustHaveDescription n"
  by (induction sts arbitrary: i) (auto split: if_splits)

text \<open>
  C6 (as amended). \<^verbatim>\<open>validateContract\<close> accepts a contract exactly when its title
  is a non-empty string, it has at least two participants, at least one step,
  and every step has a non-empty description; with a title present it answers
  'Contract must have at least 2 participants' exactly when the list has fewer
  than two entries. Nothing is asked of the entries themselves: they may be
  empty or repeated. The create route applies it to the contract it has built,
  the update route to the contract with the updates overlaid, and both answer
  400 with its message and store nothing when it fails.
\<close>

theorem validateContract_participants:
  "(validateContract c = None \<longleftrightarrow>
      truthy (c_title c) \<and> 2 \<le> length (c_participants c) \<and> c_steps c \<noteq> []
      \<and> list_all (\<lambda>st. truthy (st_description st)) (c_steps c))
   \<and> (truthy (c_title c) \<longrightarrow>
        (validateContract c = Some MustHaveTwoParticipants \<longleftrightarrow> length (c_participants c) < 2))
   \<and> (verifySessionlessAuth e rq None = Some (Inr au)
        \<and> validateContract (newContract e rq au) = Some err
      \<longrightarrow> post_contract e s rq = (fail 400 (ValidationFailed err), s))
   \<and> (verifySessionlessAuth e rq (Some uuid) = Some (Inr au)
        \<and> loadContractFromBDO e s uuid = (Some c0, s1)
        \<and> (c_creator c0 = a_pubKey au \<or> a_pubKey au \<in> set (c_participants c0))
        \<and> validateContract (applyUpdates e rq c0) = Some err
      \<longrightarrow> fst (put_contract e s uuid rq) = fail 400 (ValidationFailed err)
        \<and> contracts (snd (put_contract e s uuid rq)) = contracts s)"
proof (intro conjI impI)
  show "validateContract c = None \<longleftrightarrow>
      truthy (c_title c) \<and> 2 \<le> length (c_participants c) \<and> c_steps c \<noteq> []
      \<and> list_all (\<lambda>st. truthy (st_description st)) (c_steps c)"
    by (auto simp: validateContract_def validateSteps_None)
next
  assume "truthy (c_title c)"
  then show "validateContract c = Some MustHaveTwoParticipants \<longleftrightarrow> length (c_participants c) < 2"
    by (auto simp: validateContract_def dest: validateSteps_Some)
next
  assume "verifySessionlessAuth e rq None = Some (Inr au)
        \<and> validateContract (newContract e rq au) = Some err"
  then show "post_contract e s rq = (fail 400 (ValidationFailed err), s)"
    by (simp add: post_contract_def Let_def)
next
  assume h: "verifySessionlessAuth e rq (Some uuid) = Some (Inr au)
        \<and> loadContractFromBDO e s uuid = (Some c0, s1)
        \<and> (c_creator c0 = a_pubKey au \<or> a_pubKey au \<in> set (c_participants c0))
        \<and> validateContract (applyUpdates e rq c0) = Some err"
  then have r: "put_contract e s uuid rq = (fail 400 (ValidationFailed err), s1)"
    by (auto simp: put_contract_def)
  then show "fst (put_contract e s uuid rq) = fail 400 (ValidationFailed err)"
    by simp
  from h have "contracts s1 = contracts s"
    by (auto dest: loadContractFromBDO_frame)
  with r show "contracts (snd (put_contract e s uuid rq)) = contracts s"
    by simp
qed

theorem validateContract_participants_witness:
  "truthy (c_title (demo_contract\<lparr>c_participants := [''Pa'']\<rparr>))
   \<and> validateContract (demo_contract\<lparr>c_participants := [''Pa'']\<rparr>) = Some MustHaveTwoParticipants
   \<and> validateContract demo_contract = None
   \<and> post_contract demo_env empty_state (create_request\<lparr>rq_participants := Some [''Pa'']\<rparr>)
       = (fail 400 (ValidationFailed MustHaveTwoParticipants), empty_state)
   \<and> fst (put_contract demo_env demo_state ''c1''
        ((signed_request ''Pa'' ''ua'' ''9'' ''c1'')\<lparr>rq_steps := Defined []\<rparr>))
       = fail 400 (ValidationFailed MustHaveOneStep)"
proof -
  let ?au = "\<lparr>a_message = ''9ua'', a_signature = ''Pa:9ua'', a_pubKey = ''Pa'',
              a_userUUID = ''ua'', a_timestamp = ''9''\<rparr>"
  let ?au1 = "\<lparr>a_message = ''9uac1'', a_signature = ''Pa:9uac1'', a_pubKey = ''Pa'',
              a_userUUID = ''ua'', a_timestamp = ''9''\<rparr>"
  let ?rq = "create_request\<lparr>rq_participants := Some [''Pa'']\<rparr>"
  let ?up = "(signed_request ''Pa'' ''ua'' ''9'' ''c1'')\<lparr>rq_steps := Defined []\<rparr>"
  have a: "truthy (c_title (demo_contract\<lparr>c_participants := [''Pa'']\<rparr>))
      \<and> length (c_participants (demo_contract\<lparr>c_participants := [''Pa'']\<rparr>)) < 2"
    by (simp add: demo_defs truthy_def)
  have b: "truthy (c_title demo_contract) \<and> 2 \<le> length (c_participants demo_contract)
      \<and> c_steps demo_contract \<noteq> []
      \<and> list_all (\<lambda>st. truthy (st_description st)) (c_steps demo_contract)"
    by (simp add: demo_defs truthy_def)
  have c: "verifySessionlessAuth demo_env ?rq None = Some (Inr ?au)
      \<and> validateContract (newContract demo_env ?rq ?au) = Some MustHaveTwoParticipants"
    by (simp add: verifySessionlessAuth_def validateContract_def newContract_def truthy_def
        str_def Let_def demo_defs)
  have d: "verifySessionlessAuth demo_env ?up (Some ''c1'') = Some (Inr ?au1)
      \<and> loadContractFromBDO demo_env demo_state ''c1'' = (Some demo_contract, demo_state)
      \<and> (c_creator demo_contract = a_pubKey ?au1
           \<or> a_pubKey ?au1 \<in> set (c_participants demo_contract))
      \<and> validateContract (applyUpdates demo_env ?up demo_contract) = Some MustHaveOneStep"
    by (simp add: verifySessionlessAuth_def validateContract_def applyUpdates_def
        loadContractFromBDO_def loadContract_def truthy_def str_def Let_def demo_defs)
  from validateContract_participants
         [of "demo_contract\<lparr>c_participants := [''Pa'']\<rparr>" demo_env ?rq ?au
             MustHaveTwoParticipants empty_state] a c
  have 1: "validateContract (demo_contract\<lparr>c_participants := [''Pa'']\<rparr>)
        = Some MustHaveTwoParticipants
      \<and> post_contract demo_env empty_state ?rq
        = (fail 400 (ValidationFailed MustHaveTwoParticipants), empty_state)"
    by blast
  from validateContract_participants
         [of demo_contract demo_env ?up ?au1 MustHaveOneStep demo_state "''c1''"
             demo_contract demo_state] b d
  have 2: "validateContract demo_contract = None
      \<and> fst (put_contract demo_env demo_state ''c1'' ?up)
        = fail 400 (ValidationFailed MustHaveOneStep)"
    by blast
  from a 1 2 show ?thesis
    by blast
qed

text \<open>
  C6 as stated fails: a participant list with a repeated key, and one with an
  empty string, pass validation, and the create route answers 200 for them.
\<close>

theorem validateContract_duplicate_counterexample:
  "\<not> distinct [''Pa'', ''Pa'']
   \<and> validateContract (demo_contract\<lparr>c_participants := [''Pa'', ''Pa'']\<rparr>) = None
   \<and> validateContract (demo_contract\<lparr>c_participants := ['''', ''Pb'']\<rparr>) = None
   \<and> status (fst (post_contract demo_env empty_state
         ((signed_request ''Pa'' ''ua'' ''9'' [])
            \<lparr>rq_title := Defined ''Deal'', rq_participants := Some [''Pa'', ''Pa''],
             rq_steps := Defined [demo_step]\<rparr>))) = 200"
  by (simp add: model_defs demo_defs)


subsection \<open>Signing a step\<close>

lemma verifySessionlessAuth_Inr:
  "verifySessionlessAuth e rq cu = Some (Inr au) \<Longrightarrow>
     truthy (rq_signature rq) \<and> truthy (rq_timestamp rq) \<and> truthy (rq_userUUID rq)
     \<and> truthy (rq_pubKey rq) \<and> rq_pubKey rq = Some (a_pubKey au)
     \<and> a_timestamp au = str (rq_timestamp rq) \<and> a_userUUID au = str (rq_userUUID rq)"
  by (auto simp: verifySessionlessAuth_def Let_def truthy_def str_def
      split: if_splits option.splits)

lemma verifySessionlessAuth_Inl:
  "verifySessionlessAuth e rq cu = Some (Inl r) \<Longrightarrow> status r = 401"
  by (auto simp: verifySessionlessAuth_def Let_def fail_def split: if_splits option.splits)

lemma put_contract_sign_success:
  assumes gate: "verifySessionlessAuth e rq (Some uuid) = Some (Inr au)"
    and load: "loadContractFromBDO e s uuid = (Some c, s1)"
    and part: "a_pubKey au \<in> set (c_participants c)"
    and fields: "truthy (rq_stepId rq)" "truthy (rq_stepSignature rq)"
    and found: "find (\<lambda>st. st_id st = rq_stepId rq) (c_steps c) = Some st"
    and ver: "stepSignatureVerifies e rq uuid"
    and sigs: "st_signatures st = Some m"
    and wr: "e_localWriteOk e"
  shows "\<exists>c' s'. put_contract_sign e s uuid rq =
           (ok (SignData uuid (str (rq_stepId rq))
                  (st_completed (addSignature e au (str (rq_stepSignature rq)) (stepMessage rq uuid)
                      (c_participants c) m st))
                  (magicTriggered (addSignature e au (str (rq_stepSignature rq)) (stepMessage rq uuid)
                      (c_participants c) m st))), s')
         \<and> contracts s' = (contracts s)(c_uuid c \<mapsto> c')
         \<and> c_participants c' = c_participants c
         \<and> find (\<lambda>st. st_id st = rq_stepId rq) (c_steps c')
             = Some (addSignature e au (str (rq_stepSignature rq)) (stepMessage rq uuid)
                      (c_participants c) m st)
         \<and> (\<exists>c1. c_uuid c1 = c_uuid c \<and> saveContractToBDO e s1 c1 = (Some c', s'))"
proof -
  let ?msg = "stepMessage rq uuid"
  let ?st' = "addSignature e au (str (rq_stepSignature rq)) ?msg (c_participants c) m st"
  let ?c1 = "c\<lparr>c_steps := update_first (\<lambda>st. st_id st = rq_stepId rq) (\<lambda>_. ?st') (c_steps c),
              c_updatedAt := e_clock e
                (if allSigned (c_participants c)
                      (installSignature e au (str (rq_stepSignature rq)) ?msg m)
                    \<and> \<not> truthy_flag (st_completed st) then 2 else 1)\<rparr>"
  from gate have au: "rq_pubKey rq = Some (a_pubKey au)" "a_timestamp au = str (rq_timestamp rq)"
      "a_userUUID au = str (rq_userUUID rq)"
    by (auto dest: verifySessionlessAuth_Inr)
  then have msg: "a_timestamp au @ a_userUUID au @ uuid @ str (rq_stepId rq) = ?msg"
    by (simp add: stepMessage_def)
  from ver au have ver': "e_verifySignature e (str (rq_stepSignature rq)) ?msg (Some (a_pubKey au))
      = Some True"
    by (simp add: stepSignatureVerifies_def)
  from wr obtain c' s' where sv: "saveContractToBDO e s1 ?c1 = (Some c', s')"
    using saveContractToBDO_total by blast
  from found have idst: "st_id st = rq_stepId rq"
    by (auto dest: find_Some_iff[THEN iffD1])
  have id': "st_id ?st' = rq_stepId rq"
    using idst by (simp add: addSignature_def Let_def)
  have res: "put_contract_sign e s uuid rq =
      (ok (SignData uuid (str (rq_stepId rq)) (st_completed ?st') (magicTriggered ?st')), s')"
    using gate load part fields found ver' sigs sv
    by (simp add: put_contract_sign_def msg Let_def)
  have "contracts s' = (contracts s1)(c_uuid ?c1 \<mapsto> c')"
    using saveContractToBDO_Some(2)[OF sv] .
  moreover have "contracts s1 = contracts s"
    using loadContractFromBDO_frame[OF load] by simp
  ultimately have st: "contracts s' = (contracts s)(c_uuid c \<mapsto> c')" by simp
  from saveContractToBDO_frame[OF sv]
  have fr: "c_participants c' = c_participants c"
      "c_steps c' = update_first (\<lambda>st. st_id st = rq_stepId rq) (\<lambda>_. ?st') (c_steps c)"
    by simp_all
  have "find (\<lambda>st. st_id st = rq_stepId rq) (c_steps c') = Some ?st'"
    unfolding fr(2) using found id' by (rule find_update_first)
  moreover have "\<exists>c1. c_uuid c1 = c_uuid c \<and> saveContractToBDO e s1 c1 = (Some c', s')"
    using sv by (intro exI[of _ ?c1]) simp
  ultimately show ?thesis
    using res st fr(1) by blast
qed

lemma put_contract_sign_200:
  assumes "put_contract_sign e s uuid rq = (r, s')" and "status r = 200"
  shows "\<exists>au c s1 st m.
      verifySessionlessAuth e rq (Some uuid) = Some (Inr au)
      \<and> loadContractFromBDO e s uuid = (Some c, s1)
      \<and> a_pubKey au \<in> set (c_participants c)
      \<and> truthy (rq_stepId rq) \<and> truthy (rq_stepSignature rq)
      \<and> find (\<lambda>st. st_id st = rq_stepId rq) (c_steps c) = Some st
      \<and> stepSignatureVerifies e rq uuid
      \<and> st_signatures st = Some m
      \<and> e_localWriteOk e"
proof (cases "verifySessionlessAuth e rq (Some uuid)")
  case None
  with assms show ?thesis
    by (auto simp: put_contract_sign_def fail_def)
next
  case (Some g)
  show ?thesis
  proof (cases g)
    case (Inl r0)
    with Some assms verifySessionlessAuth_Inl [of e rq "Some uuid" r0] show ?thesis
      by (auto simp: put_contract_sign_def)
  next
    case (Inr au)
    with Some have gate: "verifySessionlessAuth e rq (Some uuid) = Some (Inr au)"
      by simp
    then have au: "rq_pubKey rq = Some (a_pubKey au)" "a_timestamp au = str (rq_timestamp rq)"
        "a_userUUID au = str (rq_userUUID rq)"
      by (auto dest: verifySessionlessAuth_Inr)
    from assms gate show ?thesis
      unfolding put_contract_sign_def
      by (auto simp: fail_def ok_def Let_def stepSignatureVerifies_def stepMessage_def au
          split: prod.splits option.splits if_splits dest: saveContractToBDO_Some(1))
  qed
qed

lemma put_contract_sign_failure_frame:
  assumes "put_contract_sign e s uuid rq = (r, s')" and "status r \<noteq> 200"
  shows "contracts s' = contracts s"
  using assms
  unfolding put_contract_sign_def
  by (auto simp: ok_def Let_def split: sum.splits prod.splits option.splits if_splits
      dest!: loadContractFromBDO_frame saveContractToBDO_None(2))


text \<open>
  C5. A sign request on a contract that exists, by a caller whose key is not
  among the participants, is never answered 200 and leaves every stored
  contract (so every signature map) as it was, whatever its two signatures;
  when it passes the endpoint check the answer is 403 'User not authorized for
  this contract'; otherwise it is the 401 of the endpoint check or, when the
  verifier throws on the endpoint signature, the 500 of the catch-all.
\<close>

theorem sign_non_participant_forbidden:
  assumes load: "loadContractFromBDO e s uuid = (Some c, s1)"
    and caller: "rq_pubKey rq = Some pk"
    and outsider: "pk \<notin> set (c_participants c)"
  shows "status (fst (put_contract_sign e s uuid rq)) \<noteq> 200
     \<and> contracts (snd (put_contract_sign e s uuid rq)) = contracts s
     \<and> (\<forall>au. verifySessionlessAuth e rq (Some uuid) = Some (Inr au)
           \<longrightarrow> fst (put_contract_sign e s uuid rq) = fail 403 UserNotAuthorized)
     \<and> (\<forall>r0. verifySessionlessAuth e rq (Some uuid) = Some (Inl r0)
           \<longrightarrow> status (fst (put_contract_sign e s uuid rq)) = 401)
     \<and> (verifySessionlessAuth e rq (Some uuid) = None
           \<longrightarrow> fst (put_contract_sign e s uuid rq) = fail 500 FailedToAddSignature)"
proof (intro conjI allI impI)
  show no: "status (fst (put_contract_sign e s uuid rq)) \<noteq> 200"
  proof
    assume "status (fst (put_contract_sign e s uuid rq)) = 200"
    from put_contract_sign_200 [OF prod.collapse [symmetric] this]
    obtain au c0 s0 where "verifySessionlessAuth e rq (Some uuid) = Some (Inr au)"
      and "loadContractFromBDO e s uuid = (Some c0, s0)"
      and "a_pubKey au \<in> set (c_participants c0)"
      by blast
    with load caller outsider show False
      by (auto dest: verifySessionlessAuth_Inr)
  qed
  show "contracts (snd (put_contract_sign e s uuid rq)) = contracts s"
    using put_contract_sign_failure_frame [OF prod.collapse [symmetric] no] .
next
  fix au
  assume gate: "verifySessionlessAuth e rq (Some uuid) = Some (Inr au)"
  with caller have "a_pubKey au = pk"
    by (auto dest: verifySessionlessAuth_Inr)
  with gate load outsider show "fst (put_contract_sign e s uuid rq) = fail 403 UserNotAuthorized"
    by (simp add: put_contract_sign_def)
next
  fix r0
  assume gate: "verifySessionlessAuth e rq (Some uuid) = Some (Inl r0)"
  then have "status r0 = 401"
    by (rule verifySessionlessAuth_Inl)
  with gate show "status (fst (put_contract_sign e s uuid rq)) = 401"
    by (simp add: put_contract_sign_def)
next
  assume "verifySessionlessAuth e rq (Some uuid) = None"
  then show "fst (put_contract_sign e s uuid rq) = fail 500 FailedToAddSignature"
    by (simp add: put_contract_sign_def)
qed

theorem sign_non_participant_forbidden_witness:
  "verifySessionlessAuth demo_env (sign_request ''Pc'' ''uc'' ''9'' ''c1'' ''s1'') (Some ''c1'')
     = Some (Inr \<lparr>a_message = ''9ucc1'', a_signature = ''Pc:9ucc1'', a_pubKey = ''Pc'',
            a_userUUID = ''uc'', a_timestamp = ''9''\<rparr>)
   \<and> loadContractFromBDO demo_env demo_state ''c1'' = (Some demo_contract, demo_state)
   \<and> stepSignatureVerifies demo_env (sign_request ''Pc'' ''uc'' ''9'' ''c1'' ''s1'') ''c1''
   \<and> ''Pc'' \<notin> set (c_participants demo_contract)
   \<and> fst (put_contract_sign demo_env demo_state ''c1'' (sign_request ''Pc'' ''uc'' ''9'' ''c1'' ''s1''))
       = fail 403 UserNotAuthorized
   \<and> contracts (snd (put_contract_sign demo_env demo_state ''c1''
         (sign_request ''Pc'' ''uc'' ''9'' ''c1'' ''s1''))) = contracts demo_state"
proof -
  let ?rq = "sign_request ''Pc'' ''uc'' ''9'' ''c1'' ''s1''"
  have gate: "verifySessionlessAuth demo_env ?rq (Some ''c1'')
     = Some (Inr \<lparr>a_message = ''9ucc1'', a_signature = ''Pc:9ucc1'', a_pubKey = ''Pc'',
            a_userUUID = ''uc'', a_timestamp = ''9''\<rparr>)"
    by (simp add: verifySessionlessAuth_def truthy_def str_def Let_def demo_defs)
  have load: "loadContractFromBDO demo_env demo_state ''c1'' = (Some demo_contract, demo_state)"
    by (simp add: loadContractFromBDO_def loadContract_def truthy_def demo_defs)
  have caller: "rq_pubKey ?rq = Some ''Pc''"
    by (simp add: demo_defs)
  have outsider: "''Pc'' \<notin> set (c_participants demo_contract)"
    by (simp add: demo_defs)
  have ver: "stepSignatureVerifies demo_env ?rq ''c1''"
    by (simp add: stepSignatureVerifies_def stepMessage_def str_def demo_defs)
  from sign_non_participant_forbidden [OF load caller outsider] gate load outsider ver
  show ?thesis
    by simp
qed


lemma st_signatures_addSignature:
  "st_signatures (addSignature e au sg msg ps m st) = Some (installSignature e au sg msg m)"
  by (simp add: addSignature_def Let_def)

lemma map_of_installSignature:
  "map_of (installSignature e au sg msg m) =
     (map_of m)(a_pubKey au \<mapsto> Signed \<lparr>sg_signature = sg, sg_timestamp = a_timestamp au,
        sg_pubKey = a_pubKey au, sg_message = msg, sg_signed_at = e_clock e 0\<rparr>)"
  by (simp add: installSignature_def update_conv')

lemma allSigned_iff:
  "allSigned ps m \<longleftrightarrow> (\<forall>p\<in>set ps. map_of m p \<noteq> Some Null)"
  by (simp add: allSigned_def list_all_iff)

lemma allSigned_installSignature:
  "allSigned ps m \<Longrightarrow> allSigned ps (installSignature e au sg msg m)"
  by (simp add: allSigned_iff map_of_installSignature)

lemma addSignature_completed:
  "st_completed (addSignature e au sg msg ps m st) =
     (if allSigned ps (installSignature e au sg msg m) \<and> \<not> truthy_flag (st_completed st)
      then Some True else st_completed st)"
  by (simp add: addSignature_def Let_def)

lemma addSignature_completedAt:
  "st_completedAt (addSignature e au sg msg ps m st) =
     (if allSigned ps (installSignature e au sg msg m) \<and> \<not> truthy_flag (st_completed st)
      then Some (e_clock e 1) else st_completedAt st)"
  by (simp add: addSignature_def Let_def)

lemma addSignature_magicSpell:
  "st_magicSpell (addSignature e au sg msg ps m st) = st_magicSpell st"
  by (simp add: addSignature_def Let_def)


text \<open>
  C3 (as amended). Whenever the step signature of a sign request does not
  verify against \<^verbatim>\<open>timestamp + userUUID + contractUUID + stepId\<close> under the caller's
  key, the request is not answered 200 and no stored contract changes. When the
  request reaches the check (endpoint signature valid, contract found, caller a
  participant, both fields present, step found): if the verifier returns false
  the answer is 401 'Invalid step signature'; if the verifier throws on the
  signature the answer is 500 'Failed to add signature'; if the signature
  verifies (the step has a signature map and the local write goes through) the
  answer is 200 and the signature map of the stored step is the one found with
  the caller's record written under the caller's key.
\<close>

theorem sign_step_signature_checked:
  assumes run: "put_contract_sign e s uuid rq = (r, s')"
  shows "(\<not> stepSignatureVerifies e rq uuid \<longrightarrow> status r \<noteq> 200 \<and> contracts s' = contracts s)
   \<and> (verifySessionlessAuth e rq (Some uuid) = Some (Inr au)
        \<and> loadContractFromBDO e s uuid = (Some c, s1)
        \<and> a_pubKey au \<in> set (c_participants c)
        \<and> truthy (rq_stepId rq) \<and> truthy (rq_stepSignature rq)
        \<and> find (\<lambda>st. st_id st = rq_stepId rq) (c_steps c) = Some st
      \<longrightarrow> (e_verifySignature e (str (rq_stepSignature rq)) (stepMessage rq uuid) (rq_pubKey rq)
             = Some False
            \<longrightarrow> r = fail 401 InvalidStepSignature)
        \<and> (e_verifySignature e (str (rq_stepSignature rq)) (stepMessage rq uuid) (rq_pubKey rq)
             = None
            \<longrightarrow> r = fail 500 FailedToAddSignature)
        \<and> (stepSignatureVerifies e rq uuid \<and> st_signatures st = Some m \<and> e_localWriteOk e
            \<longrightarrow> status r = 200
              \<and> (\<exists>c' st'. contracts s' (c_uuid c) = Some c'
                   \<and> find (\<lambda>st. st_id st = rq_stepId rq) (c_steps c') = Some st'
                   \<and> st_signatures st'
                       = Some (AList.update (a_pubKey au)
                                 (Signed \<lparr>sg_signature = str (rq_stepSignature rq),
                                          sg_timestamp = str (rq_timestamp rq),
                                          sg_pubKey = a_pubKey au,
                                          sg_message = stepMessage rq uuid,
                                          sg_signed_at = e_clock e 0\<rparr>) m))))"
proof (intro conjI impI)
  assume nv: "\<not> stepSignatureVerifies e rq uuid"
  show "status r \<noteq> 200"
    using put_contract_sign_200[OF run] nv by blast
  then show "contracts s' = contracts s"
    using put_contract_sign_failure_frame[OF run] by blast
next
  assume pre: "verifySessionlessAuth e rq (Some uuid) = Some (Inr au)
        \<and> loadContractFromBDO e s uuid = (Some c, s1)
        \<and> a_pubKey au \<in> set (c_participants c)
        \<and> truthy (rq_stepId rq) \<and> truthy (rq_stepSignature rq)
        \<and> find (\<lambda>st. st_id st = rq_stepId rq) (c_steps c) = Some st"
    and nv: "e_verifySignature e (str (rq_stepSignature rq)) (stepMessage rq uuid) (rq_pubKey rq)
             = Some False"
  from pre have "rq_pubKey rq = Some (a_pubKey au)" "a_timestamp au = str (rq_timestamp rq)"
      "a_userUUID au = str (rq_userUUID rq)"
    by (auto dest: verifySessionlessAuth_Inr)
  with nv have "e_verifySignature e (str (rq_stepSignature rq))
      (a_timestamp au @ a_userUUID au @ uuid @ str (rq_stepId rq)) (Some (a_pubKey au)) = Some False"
    by (simp add: stepMessage_def)
  with pre run show "r = fail 401 InvalidStepSignature"
    by (simp add: put_contract_sign_def Let_def)
next
  assume pre: "verifySessionlessAuth e rq (Some uuid) = Some (Inr au)
        \<and> loadContractFromBDO e s uuid = (Some c, s1)
        \<and> a_pubKey au \<in> set (c_participants c)
        \<and> truthy (rq_stepId rq) \<and> truthy (rq_stepSignature rq)
        \<and> find (\<lambda>st. st_id st = rq_stepId rq) (c_steps c) = Some st"
    and thrown: "e_verifySignature e (str (rq_stepSignature rq)) (stepMessage rq uuid)
             (rq_pubKey rq) = None"
  from pre have "rq_pubKey rq = Some (a_pubKey au)" "a_timestamp au = str (rq_timestamp rq)"
      "a_userUUID au = str (rq_userUUID rq)"
    by (auto dest: verifySessionlessAuth_Inr)
  with thrown have "e_verifySignature e (str (rq_stepSignature rq))
      (a_timestamp au @ a_userUUID au @ uuid @ str (rq_stepId rq)) (Some (a_pubKey au)) = None"
    by (simp add: stepMessage_def)
  with pre run show "r = fail 500 FailedToAddSignature"
    by (simp add: put_contract_sign_def Let_def)
next
  assume pre: "verifySessionlessAuth e rq (Some uuid) = Some (Inr au)
        \<and> loadContractFromBDO e s uuid = (Some c, s1)
        \<and> a_pubKey au \<in> set (c_participants c)
        \<and> truthy (rq_stepId rq) \<and> truthy (rq_stepSignature rq)
        \<and> find (\<lambda>st. st_id st = rq_stepId rq) (c_steps c) = Some st"
    and v: "stepSignatureVerifies e rq uuid \<and> st_signatures st = Some m \<and> e_localWriteOk e"
  let ?st' = "addSignature e au (str (rq_stepSignature rq)) (stepMessage rq uuid)
                (c_participants c) m st"
  from pre have ts: "a_timestamp au = str (rq_timestamp rq)"
    by (auto dest: verifySessionlessAuth_Inr)
  from pre v have p: "verifySessionlessAuth e rq (Some uuid) = Some (Inr au)"
      "loadContractFromBDO e s uuid = (Some c, s1)"
      "a_pubKey au \<in> set (c_participants c)"
      "truthy (rq_stepId rq)" "truthy (rq_stepSignature rq)"
      "find (\<lambda>st. st_id st = rq_stepId rq) (c_steps c) = Some st"
      "stepSignatureVerifies e rq uuid" "st_signatures st = Some m" "e_localWriteOk e"
    by simp_all
  from put_contract_sign_success[OF p] obtain c' s2 where
    res: "put_contract_sign e s uuid rq =
           (ok (SignData uuid (str (rq_stepId rq)) (st_completed ?st') (magicTriggered ?st')), s2)"
    and st: "contracts s2 = (contracts s)(c_uuid c \<mapsto> c')"
    and fd: "find (\<lambda>st. st_id st = rq_stepId rq) (c_steps c') = Some ?st'"
    by blast
  from res run have r: "r = ok (SignData uuid (str (rq_stepId rq)) (st_completed ?st')
      (magicTriggered ?st'))" and s2: "s2 = s'"
    by simp_all
  show "status r = 200" by (simp add: r ok_def)
  show "\<exists>c' st'. contracts s' (c_uuid c) = Some c'
                   \<and> find (\<lambda>st. st_id st = rq_stepId rq) (c_steps c') = Some st'
                   \<and> st_signatures st'
                       = Some (AList.update (a_pubKey au)
                                 (Signed \<lparr>sg_signature = str (rq_stepSignature rq),
                                          sg_timestamp = str (rq_timestamp rq),
                                          sg_pubKey = a_pubKey au,
                                          sg_message = stepMessage rq uuid,
                                          sg_signed_at = e_clock e 0\<rparr>) m)"
    using st fd unfolding s2
    by (intro exI[of _ c'] exI[of _ ?st'])
       (simp add: st_signatures_addSignature installSignature_def ts)
qed

theorem sign_step_signature_checked_witness:
  "\<not> stepSignatureVerifies demo_env forged_request ''c1''
   \<and> fst (put_contract_sign demo_env demo_state ''c1'' forged_request)
       = fail 401 InvalidStepSignature
   \<and> contracts (snd (put_contract_sign demo_env demo_state ''c1'' forged_request))
       = contracts demo_state
   \<and> \<not> stepSignatureVerifies demo_env garbled_request ''c1''
   \<and> fst (put_contract_sign demo_env demo_state ''c1'' garbled_request)
       = fail 500 FailedToAddSignature
   \<and> contracts (snd (put_contract_sign demo_env demo_state ''c1'' garbled_request))
       = contracts demo_state
   \<and> stepSignatureVerifies demo_env (sign_request ''Pa'' ''ua'' ''9'' ''c1'' ''s1'') ''c1''
   \<and> status (fst (put_contract_sign demo_env demo_state ''c1''
         (sign_request ''Pa'' ''ua'' ''9'' ''c1'' ''s1''))) = 200
   \<and> (\<exists>c' st'.
         contracts (snd (put_contract_sign demo_env demo_state ''c1''
            (sign_request ''Pa'' ''ua'' ''9'' ''c1'' ''s1''))) ''c1'' = Some c'
         \<and> find (\<lambda>st. st_id st = Some ''s1'') (c_steps c') = Some st'
         \<and> st_signatures st'
             = Some [(''Pa'', Signed \<lparr>sg_signature = ''Pa:9uac1s1'', sg_timestamp = ''9'',
                                        sg_pubKey = ''Pa'', sg_message = ''9uac1s1'',
                                        sg_signed_at = ''170''\<rparr>),
                     (''Pb'', Null)])"
proof -
  let ?au = "\<lparr>a_message = ''9uac1'', a_signature = ''Pa:9uac1'', a_pubKey = ''Pa'',
              a_userUUID = ''ua'', a_timestamp = ''9''\<rparr>"
  let ?good = "sign_request ''Pa'' ''ua'' ''9'' ''c1'' ''s1''"
  have rejected: "e_verifySignature demo_env (str (rq_stepSignature forged_request))
      (stepMessage forged_request ''c1'') (rq_pubKey forged_request) = Some False"
    by (simp add: stepMessage_def str_def demo_defs)
  have thrown: "e_verifySignature demo_env (str (rq_stepSignature garbled_request))
      (stepMessage garbled_request ''c1'') (rq_pubKey garbled_request) = None"
    by (simp add: stepMessage_def str_def demo_defs)
  have nv1: "\<not> stepSignatureVerifies demo_env forged_request ''c1''"
    using rejected by (simp add: stepSignatureVerifies_def)
  have nv2: "\<not> stepSignatureVerifies demo_env garbled_request ''c1''"
    using thrown by (simp add: stepSignatureVerifies_def)
  have v: "stepSignatureVerifies demo_env ?good ''c1''"
    by (simp add: stepSignatureVerifies_def stepMessage_def str_def demo_defs)
  have load: "loadContractFromBDO demo_env demo_state ''c1'' = (Some demo_contract, demo_state)"
    by (simp add: loadContractFromBDO_def loadContract_def truthy_def demo_defs)
  have found: "find (\<lambda>st. st_id st = Some ''s1'') (c_steps demo_contract) = Some demo_step"
    by (simp add: demo_defs)
  have pre1: "verifySessionlessAuth demo_env forged_request (Some ''c1'') = Some (Inr ?au)
      \<and> loadContractFromBDO demo_env demo_state ''c1'' = (Some demo_contract, demo_state)
      \<and> a_pubKey ?au \<in> set (c_participants demo_contract)
      \<and> truthy (rq_stepId forged_request) \<and> truthy (rq_stepSignature forged_request)
      \<and> find (\<lambda>st. st_id st = rq_stepId forged_request) (c_steps demo_contract) = Some demo_step"
    using load found
    by (simp add: verifySessionlessAuth_def truthy_def str_def Let_def demo_defs)
  have pre2: "verifySessionlessAuth demo_env garbled_request (Some ''c1'') = Some (Inr ?au)
      \<and> loadContractFromBDO demo_env demo_state ''c1'' = (Some demo_contract, demo_state)
      \<and> a_pubKey ?au \<in> set (c_participants demo_contract)
      \<and> truthy (rq_stepId garbled_request) \<and> truthy (rq_stepSignature garbled_request)
      \<and> find (\<lambda>st. st_id st = rq_stepId garbled_request) (c_steps demo_contract) = Some demo_step"
    using load found
    by (simp add: verifySessionlessAuth_def truthy_def str_def Let_def demo_defs)
  have pre3: "verifySessionlessAuth demo_env ?good (Some ''c1'') = Some (Inr ?au)
      \<and> loadContractFromBDO demo_env demo_state ''c1'' = (Some demo_contract, demo_state)
      \<and> a_pubKey ?au \<in> set (c_participants demo_contract)
      \<and> truthy (rq_stepId ?good) \<and> truthy (rq_stepSignature ?good)
      \<and> find (\<lambda>st. st_id st = rq_stepId ?good) (c_steps demo_contract) = Some demo_step"
    using load found
    by (simp add: verifySessionlessAuth_def truthy_def str_def Let_def demo_defs)
  have more: "st_signatures demo_step = Some [(''Pa'', Null), (''Pb'', Null)]
      \<and> e_localWriteOk demo_env"
    by (simp add: demo_defs)
  have vals: "rq_stepId ?good = Some ''s1''" "str (rq_stepSignature ?good) = ''Pa:9uac1s1''"
    "str (rq_timestamp ?good) = ''9''" "stepMessage ?good ''c1'' = ''9uac1s1''"
    "e_clock demo_env 0 = ''170''" "c_uuid demo_contract = ''c1''"
    by (simp_all add: stepMessage_def str_def demo_defs)
  from sign_step_signature_checked
         [OF prod.collapse [symmetric], of demo_env forged_request "''c1''" demo_state
            ?au demo_contract demo_state demo_step]
       nv1 rejected pre1
  have bad: "fst (put_contract_sign demo_env demo_state ''c1'' forged_request)
       = fail 401 InvalidStepSignature
     \<and> contracts (snd (put_contract_sign demo_env demo_state ''c1'' forged_request))
       = contracts demo_state"
    by blast
  from sign_step_signature_checked
         [OF prod.collapse [symmetric], of demo_env garbled_request "''c1''" demo_state
            ?au demo_contract demo_state demo_step]
       nv2 thrown pre2
  have garbled: "fst (put_contract_sign demo_env demo_state ''c1'' garbled_request)
       = fail 500 FailedToAddSignature
     \<and> contracts (snd (put_contract_sign demo_env demo_state ''c1'' garbled_request))
       = contracts demo_state"
    by blast
  from sign_step_signature_checked
         [OF prod.collapse [symmetric], of demo_env ?good "''c1''" demo_state
            ?au demo_contract demo_state demo_step "[(''Pa'', Null), (''Pb'', Null)]"]
       v pre3 more
  have good: "status (fst (put_contract_sign demo_env demo_state ''c1'' ?good)) = 200
     \<and> (\<exists>c' st'.
         contracts (snd (put_contract_sign demo_env demo_state ''c1'' ?good)) ''c1'' = Some c'
         \<and> find (\<lambda>st. st_id st = Some ''s1'') (c_steps c') = Some st'
         \<and> st_signatures st'
             = Some [(''Pa'', Signed \<lparr>sg_signature = ''Pa:9uac1s1'', sg_timestamp = ''9'',
                                        sg_pubKey = ''Pa'', sg_message = ''9uac1s1'',
                                        sg_signed_at = ''170''\<rparr>),
                     (''Pb'', Null)])"
    by (simp add: vals)
  from nv1 nv2 v bad garbled good show ?thesis by blast
qed

text \<open>
  C3 as stated fails: a step signature that the verifier cannot parse does not
  verify, and the request that carries it (passing every earlier check) is
  answered 500 'Failed to add signature', not 401 'Invalid step signature'.
\<close>

theorem sign_garbled_step_signature_counterexample:
  "\<not> stepSignatureVerifies demo_env garbled_request ''c1''
   \<and> fst (put_contract_sign demo_env demo_state ''c1'' garbled_request)
       = fail 500 FailedToAddSignature
   \<and> fst (put_contract_sign demo_env demo_state ''c1'' garbled_request)
       \<noteq> fail 401 InvalidStepSignature"
  by (simp add: model_defs stepSignatureVerifies_def stepMessage_def demo_defs)


lemma addSignature_eq:
  "addSignature e au sg msg ps m st =
     (let m' = AList.update (a_pubKey au)
                 (Signed \<lparr>sg_signature = sg, sg_timestamp = a_timestamp au,
                          sg_pubKey = a_pubKey au, sg_message = msg,
                          sg_signed_at = e_clock e 0\<rparr>) m;
          done = (st_completed st = Some True \<or> (\<forall>p\<in>set ps. map_of m' p \<noteq> Some Null))
      in st\<lparr>st_signatures := Some m',
             st_completed := (if done then Some True else st_completed st),
             st_completedAt := (if done \<and> st_completed st \<noteq> Some True then Some (e_clock e 1)
                                else st_completedAt st)\<rparr>)"
  by (auto simp: addSignature_def installSignature_def allSigned_iff truthy_flag_def Let_def)

lemma magicTriggered_addSignature:
  "magicTriggered (addSignature e au sg msg ps m st) =
     (if st_completed (addSignature e au sg msg ps m st) = Some True
      then Some (truthy (st_magicSpell st))
      else st_completed (addSignature e au sg msg ps m st))"
  by (simp add: magicTriggered_def truthy_flag_def addSignature_magicSpell)

text \<open>
  C4 (as amended). After a sign request answered 200, the signature map of the
  stored step is the one found with the caller's record written under the
  caller's key, and the step is completed exactly when it was found completed
  or no participant's entry of that map is \<^verbatim>\<open>null\<close>: a step found not completed
  becomes completed exactly when no participant's entry is \<^verbatim>\<open>null\<close> after the
  install, and \<^verbatim>\<open>completedAt\<close> is then the clock reading taken at that moment; a
  step found completed stays completed, with its \<^verbatim>\<open>completedAt\<close>, whatever its
  entries; otherwise flag and \<^verbatim>\<open>completedAt\<close> are as found. No other field of the
  step changes. The response carries the flag as \<^verbatim>\<open>stepCompleted\<close>, and
  \<^verbatim>\<open>magicTriggered\<close> is true exactly when the flag is true and the step has an
  effect descriptor.
\<close>

theorem sign_completion:
  assumes run: "put_contract_sign e s uuid rq = (r, s')" and success: "status r = 200"
  shows "\<exists>au c s1 st m c'.
      verifySessionlessAuth e rq (Some uuid) = Some (Inr au)
      \<and> loadContractFromBDO e s uuid = (Some c, s1)
      \<and> find (\<lambda>st. st_id st = rq_stepId rq) (c_steps c) = Some st
      \<and> st_signatures st = Some m
      \<and> contracts s' (c_uuid c) = Some c'
      \<and> c_participants c' = c_participants c
      \<and> (let m' = AList.update (a_pubKey au)
                     (Signed \<lparr>sg_signature = str (rq_stepSignature rq),
                              sg_timestamp = str (rq_timestamp rq),
                              sg_pubKey = a_pubKey au,
                              sg_message = stepMessage rq uuid,
                              sg_signed_at = e_clock e 0\<rparr>) m;
              done = (st_completed st = Some True
                      \<or> (\<forall>p\<in>set (c_participants c). map_of m' p \<noteq> Some Null));
              st' = st\<lparr>st_signatures := Some m',
                       st_completed := (if done then Some True else st_completed st),
                       st_completedAt :=
                         (if done \<and> st_completed st \<noteq> Some True then Some (e_clock e 1)
                          else st_completedAt st)\<rparr>
          in find (\<lambda>st. st_id st = rq_stepId rq) (c_steps c') = Some st'
             \<and> r = ok (SignData uuid (str (rq_stepId rq)) (st_completed st')
                         (if done then Some (truthy (st_magicSpell st)) else st_completed st)))"
proof -
  from put_contract_sign_200[OF run success] obtain au c s1 st m where
    pre: "verifySessionlessAuth e rq (Some uuid) = Some (Inr au)"
      "loadContractFromBDO e s uuid = (Some c, s1)"
      "a_pubKey au \<in> set (c_participants c)"
      "truthy (rq_stepId rq)" "truthy (rq_stepSignature rq)"
      "find (\<lambda>st. st_id st = rq_stepId rq) (c_steps c) = Some st"
      "stepSignatureVerifies e rq uuid"
      "st_signatures st = Some m"
      "e_localWriteOk e"
    by blast
  let ?st' = "addSignature e au (str (rq_stepSignature rq)) (stepMessage rq uuid)
                (c_participants c) m st"
  from pre(1) have ts: "a_timestamp au = str (rq_timestamp rq)"
    by (auto dest: verifySessionlessAuth_Inr)
  from put_contract_sign_success[OF pre] obtain c' s2 where
    res: "put_contract_sign e s uuid rq =
           (ok (SignData uuid (str (rq_stepId rq)) (st_completed ?st') (magicTriggered ?st')), s2)"
    and st: "contracts s2 = (contracts s)(c_uuid c \<mapsto> c')"
    and ps: "c_participants c' = c_participants c"
    and fd: "find (\<lambda>st. st_id st = rq_stepId rq) (c_steps c') = Some ?st'"
    by blast
  from res run have r: "r = ok (SignData uuid (str (rq_stepId rq)) (st_completed ?st')
      (magicTriggered ?st'))" and s2: "s2 = s'"
    by simp_all
  have stored: "contracts s' (c_uuid c) = Some c'"
    using st s2 by simp
  have "let m' = AList.update (a_pubKey au)
                     (Signed \<lparr>sg_signature = str (rq_stepSignature rq),
                              sg_timestamp = str (rq_timestamp rq),
                              sg_pubKey = a_pubKey au,
                              sg_message = stepMessage rq uuid,
                              sg_signed_at = e_clock e 0\<rparr>) m;
              done = (st_completed st = Some True
                      \<or> (\<forall>p\<in>set (c_participants c). map_of m' p \<noteq> Some Null));
              st' = st\<lparr>st_signatures := Some m',
                       st_completed := (if done then Some True else st_completed st),
                       st_completedAt :=
                         (if done \<and> st_completed st \<noteq> Some True then Some (e_clock e 1)
                          else st_completedAt st)\<rparr>
          in find (\<lambda>st. st_id st = rq_stepId rq) (c_steps c') = Some st'
             \<and> r = ok (SignData uuid (str (rq_stepId rq)) (st_completed st')
                         (if done then Some (truthy (st_magicSpell st)) else st_completed st))"
    unfolding fd r magicTriggered_addSignature
    unfolding addSignature_eq ts
    by (simp add: Let_def)
  with pre(1,2,6,8) stored ps show ?thesis
    by blast
qed


theorem sign_completion_witness:
  "status (fst (put_contract_sign demo_env demo_state ''c1''
       (sign_request ''Pa'' ''ua'' ''9'' ''c1'' ''s1''))) = 200
   \<and> (\<exists>c'. contracts (snd (put_contract_sign demo_env demo_state ''c1''
              (sign_request ''Pa'' ''ua'' ''9'' ''c1'' ''s1''))) ''c1'' = Some c'
         \<and> find (\<lambda>st. st_id st = Some ''s1'') (c_steps c')
             = Some (demo_step
                 \<lparr>st_signatures :=
                    Some [(''Pa'', Signed \<lparr>sg_signature = ''Pa:9uac1s1'', sg_timestamp = ''9'',
                                            sg_pubKey = ''Pa'', sg_message = ''9uac1s1'',
                                            sg_signed_at = ''170''\<rparr>),
                          (''Pb'', Null)]\<rparr>))
   \<and> fst (put_contract_sign demo_env demo_state ''c1''
       (sign_request ''Pa'' ''ua'' ''9'' ''c1'' ''s1''))
     = ok (SignData ''c1'' ''s1'' (Some False) (Some False))
   \<and> status (fst (put_contract_sign demo_env half_signed_state ''c1''
       (sign_request ''Pb'' ''ub'' ''9'' ''c1'' ''s1''))) = 200
   \<and> (\<exists>c'. contracts (snd (put_contract_sign demo_env half_signed_state ''c1''
              (sign_request ''Pb'' ''ub'' ''9'' ''c1'' ''s1''))) ''c1'' = Some c'
         \<and> find (\<lambda>st. st_id st = Some ''s1'') (c_steps c')
             = Some (half_signed_step
                 \<lparr>st_signatures :=
                    Some [(''Pa'', Signed \<lparr>sg_signature = ''Pa:7uac1s1'', sg_timestamp = ''7'',
                                            sg_pubKey = ''Pa'', sg_message = ''7uac1s1'',
                                            sg_signed_at = ''171''\<rparr>),
                          (''Pb'', Signed \<lparr>sg_signature = ''Pb:9ubc1s1'', sg_timestamp = ''9'',
                                            sg_pubKey = ''Pb'', sg_message = ''9ubc1s1'',
                                            sg_signed_at = ''170''\<rparr>)],
                  st_completed := Some True, st_completedAt := Some ''1700''\<rparr>))
   \<and> fst (put_contract_sign demo_env half_signed_state ''c1''
       (sign_request ''Pb'' ''ub'' ''9'' ''c1'' ''s1''))
     = ok (SignData ''c1'' ''s1'' (Some True) (Some True))"
proof -
  let ?rq1 = "sign_request ''Pa'' ''ua'' ''9'' ''c1'' ''s1''"
  let ?rq2 = "sign_request ''Pb'' ''ub'' ''9'' ''c1'' ''s1''"
  let ?half = "demo_contract\<lparr>c_steps := [half_signed_step]\<rparr>"
  have h1: "status (fst (put_contract_sign demo_env demo_state ''c1'' ?rq1)) = 200"
    by (simp add: model_defs demo_defs)
  have h2: "status (fst (put_contract_sign demo_env half_signed_state ''c1'' ?rq2)) = 200"
    by (simp add: model_defs demo_defs)
  have gate1: "verifySessionlessAuth demo_env ?rq1 (Some ''c1'')
      = Some (Inr \<lparr>a_message = ''9uac1'', a_signature = ''Pa:9uac1'', a_pubKey = ''Pa'',
                   a_userUUID = ''ua'', a_timestamp = ''9''\<rparr>)"
    by (simp add: verifySessionlessAuth_def truthy_def str_def Let_def demo_defs)
  have gate2: "verifySessionlessAuth demo_env ?rq2 (Some ''c1'')
      = Some (Inr \<lparr>a_message = ''9ubc1'', a_signature = ''Pb:9ubc1'', a_pubKey = ''Pb'',
                   a_userUUID = ''ub'', a_timestamp = ''9''\<rparr>)"
    by (simp add: verifySessionlessAuth_def truthy_def str_def Let_def demo_defs)
  have load1: "loadContractFromBDO demo_env demo_state ''c1'' = (Some demo_contract, demo_state)"
    by (simp add: loadContractFromBDO_def loadContract_def truthy_def demo_defs)
  have load2: "loadContractFromBDO demo_env half_signed_state ''c1''
      = (Some ?half, half_signed_state)"
    by (simp add: loadContractFromBDO_def loadContract_def truthy_def demo_defs)
  have vals: "rq_stepId ?rq1 = Some ''s1''" "rq_stepId ?rq2 = Some ''s1''"
    "str (rq_stepSignature ?rq1) = ''Pa:9uac1s1''" "str (rq_stepSignature ?rq2) = ''Pb:9ubc1s1''"
    "str (rq_timestamp ?rq1) = ''9''" "str (rq_timestamp ?rq2) = ''9''"
    "stepMessage ?rq1 ''c1'' = ''9uac1s1''" "stepMessage ?rq2 ''c1'' = ''9ubc1s1''"
    "e_clock demo_env 0 = ''170''" "e_clock demo_env (Suc 0) = ''1700''"
    "c_uuid demo_contract = ''c1''" "c_uuid ?half = ''c1''"
    by (simp_all add: stepMessage_def str_def demo_defs)
  have steps: "find (\<lambda>st. st_id st = Some ''s1'') (c_steps demo_contract) = Some demo_step"
    "find (\<lambda>st. st_id st = Some ''s1'') (c_steps ?half) = Some half_signed_step"
    "st_signatures demo_step = Some [(''Pa'', Null), (''Pb'', Null)]"
    "c_participants demo_contract = [''Pa'', ''Pb'']" "c_participants ?half = [''Pa'', ''Pb'']"
    "st_completed demo_step = Some False" "truthy (st_magicSpell demo_step)"
    "st_completedAt demo_step = None"
    by (simp_all add: truthy_def demo_defs)
  have half: "st_signatures half_signed_step
      = Some [(''Pa'', Signed \<lparr>sg_signature = ''Pa:7uac1s1'', sg_timestamp = ''7'',
                               sg_pubKey = ''Pa'', sg_message = ''7uac1s1'',
                               sg_signed_at = ''171''\<rparr>),
              (''Pb'', Null)]"
    "st_completed half_signed_step = Some False" "truthy (st_magicSpell half_signed_step)"
    "st_id half_signed_step = Some ''s1''"
    by (simp_all add: truthy_def demo_defs)
  from sign_completion [OF prod.collapse [symmetric] h1]
  have first: "(\<exists>c'. contracts (snd (put_contract_sign demo_env demo_state ''c1'' ?rq1)) ''c1''
          = Some c'
         \<and> find (\<lambda>st. st_id st = Some ''s1'') (c_steps c')
             = Some (demo_step
                 \<lparr>st_signatures :=
                    Some [(''Pa'', Signed \<lparr>sg_signature = ''Pa:9uac1s1'', sg_timestamp = ''9'',
                                            sg_pubKey = ''Pa'', sg_message = ''9uac1s1'',
                                            sg_signed_at = ''170''\<rparr>),
                          (''Pb'', Null)]\<rparr>))
     \<and> fst (put_contract_sign demo_env demo_state ''c1'' ?rq1)
       = ok (SignData ''c1'' ''s1'' (Some False) (Some False))"
    by (auto simp: gate1 load1 vals steps Let_def)
  from sign_completion [OF prod.collapse [symmetric] h2]
  have second: "(\<exists>c'. contracts (snd (put_contract_sign demo_env half_signed_state ''c1'' ?rq2))
          ''c1'' = Some c'
         \<and> find (\<lambda>st. st_id st = Some ''s1'') (c_steps c')
             = Some (half_signed_step
                 \<lparr>st_signatures :=
                    Some [(''Pa'', Signed \<lparr>sg_signature = ''Pa:7uac1s1'', sg_timestamp = ''7'',
                                            sg_pubKey = ''Pa'', sg_message = ''7uac1s1'',
                                            sg_signed_at = ''171''\<rparr>),
                          (''Pb'', Signed \<lparr>sg_signature = ''Pb:9ubc1s1'', sg_timestamp = ''9'',
                                            sg_pubKey = ''Pb'', sg_message = ''9ubc1s1'',
                                            sg_signed_at = ''170''\<rparr>)],
                  st_completed := Some True, st_completedAt := Some ''1700''\<rparr>))
     \<and> fst (put_contract_sign demo_env half_signed_state ''c1'' ?rq2)
       = ok (SignData ''c1'' ''s1'' (Some True) (Some True))"
    by (auto simp: gate2 load2 vals steps half Let_def)
  from h1 h2 first second show ?thesis
    by blast
qed

text \<open>
  C4 as stated fails: an update (answered 200) stores a step marked completed
  whose entries are all \<^verbatim>\<open>null\<close>; the sign of \<open>Pa\<close> that follows is answered 200 with
  \<^verbatim>\<open>stepCompleted\<close> true, and the stored step is completed although the entry of
  \<open>Pb\<close> is still \<^verbatim>\<open>null\<close>.
\<close>

theorem sign_keeps_completed_counterexample:
  "status (fst (put_contract demo_env demo_state ''c1'' premature_request)) = 200
   \<and> fst (put_contract_sign demo_env premature_state ''c1''
           (sign_request ''Pa'' ''ua'' ''9'' ''c1'' ''s3''))
       = ok (SignData ''c1'' ''s3'' (Some True) (Some False))
   \<and> map_option (\<lambda>c. map (\<lambda>st. (st_completed st, st_signatures st)) (c_steps c))
        (contracts (snd (put_contract_sign demo_env premature_state ''c1''
           (sign_request ''Pa'' ''ua'' ''9'' ''c1'' ''s3''))) ''c1'')
       = Some [(Some True,
                Some [(''Pa'', Signed \<lparr>sg_signature = ''Pa:9uac1s3'', sg_timestamp = ''9'',
                                        sg_pubKey = ''Pa'', sg_message = ''9uac1s3'',
                                        sg_signed_at = ''170''\<rparr>),
                      (''Pb'', Null)])]"
  by (simp add: model_defs demo_defs)


subsection \<open>Signing a step that is already completed\<close>

text \<open>
  C1 (as amended). The sign route has no test of the \<^verbatim>\<open>completed\<close> flag before the
  write: a sign request on a step whose flag is already true goes through the
  same checks as any other, and when they pass it is answered 200 with
  \<^verbatim>\<open>stepCompleted\<close> true; the caller's record on the step is overwritten, the
  records of the others are kept, and the flag and \<^verbatim>\<open>completedAt\<close> stay as they were.
\<close>

theorem sign_completed_step_accepted:
  assumes gate: "verifySessionlessAuth e rq (Some uuid) = Some (Inr au)"
    and load: "loadContractFromBDO e s uuid = (Some c, s1)"
    and part: "a_pubKey au \<in> set (c_participants c)"
    and fields: "truthy (rq_stepId rq)" "truthy (rq_stepSignature rq)"
    and found: "find (\<lambda>st. st_id st = rq_stepId rq) (c_steps c) = Some st"
    and ver: "stepSignatureVerifies e rq uuid"
    and sigs: "st_signatures st = Some m"
    and wr: "e_localWriteOk e"
    and completed: "st_completed st = Some True"
  shows "\<exists>c' s' st' m'.
      put_contract_sign e s uuid rq =
        (ok (SignData uuid (str (rq_stepId rq)) (Some True) (Some (truthy (st_magicSpell st)))), s')
      \<and> contracts s' (c_uuid c) = Some c'
      \<and> find (\<lambda>st. st_id st = rq_stepId rq) (c_steps c') = Some st'
      \<and> st_completed st' = Some True
      \<and> st_completedAt st' = st_completedAt st
      \<and> st_signatures st' = Some m'
      \<and> map_of m' (a_pubKey au)
          = Some (Signed \<lparr>sg_signature = str (rq_stepSignature rq),
                           sg_timestamp = str (rq_timestamp rq),
                           sg_pubKey = a_pubKey au,
                           sg_message = stepMessage rq uuid,
                           sg_signed_at = e_clock e 0\<rparr>)
      \<and> (\<forall>q. q \<noteq> a_pubKey au \<longrightarrow> map_of m' q = map_of m q)"
proof -
  let ?m' = "installSignature e au (str (rq_stepSignature rq)) (stepMessage rq uuid) m"
  let ?st' = "addSignature e au (str (rq_stepSignature rq)) (stepMessage rq uuid)
                (c_participants c) m st"
  from gate have ts: "a_timestamp au = str (rq_timestamp rq)"
    by (auto dest: verifySessionlessAuth_Inr)
  from put_contract_sign_success[OF gate load part fields found ver sigs wr] obtain c' s2 where
    res: "put_contract_sign e s uuid rq =
           (ok (SignData uuid (str (rq_stepId rq)) (st_completed ?st') (magicTriggered ?st')), s2)"
    and st: "contracts s2 = (contracts s)(c_uuid c \<mapsto> c')"
    and fd: "find (\<lambda>st. st_id st = rq_stepId rq) (c_steps c') = Some ?st'"
    by blast
  have c1: "st_completed ?st' = Some True" "st_completedAt ?st' = st_completedAt st"
    using completed
    by (simp_all add: addSignature_completed addSignature_completedAt truthy_flag_def)
  then have c2: "magicTriggered ?st' = Some (truthy (st_magicSpell st))"
    by (simp add: magicTriggered_def truthy_flag_def addSignature_magicSpell)
  have "st_signatures ?st' = Some ?m'"
    by (rule st_signatures_addSignature)
  moreover have "map_of ?m' (a_pubKey au)
          = Some (Signed \<lparr>sg_signature = str (rq_stepSignature rq),
                           sg_timestamp = str (rq_timestamp rq),
                           sg_pubKey = a_pubKey au,
                           sg_message = stepMessage rq uuid,
                           sg_signed_at = e_clock e 0\<rparr>)"
    by (simp add: map_of_installSignature ts)
  moreover have "\<forall>q. q \<noteq> a_pubKey au \<longrightarrow> map_of ?m' q = map_of m q"
    by (simp add: map_of_installSignature)
  moreover have "contracts s2 (c_uuid c) = Some c'"
    using st by simp
  moreover from res have "put_contract_sign e s uuid rq =
        (ok (SignData uuid (str (rq_stepId rq)) (Some True) (Some (truthy (st_magicSpell st)))), s2)"
    by (simp add: c1 c2)
  ultimately show ?thesis
    using fd c1
    by (intro exI[of _ c'] exI[of _ s2] exI[of _ ?st'] exI[of _ ?m']) simp
qed

theorem sign_completed_step_accepted_witness:
  "st_completed completed_step = Some True
   \<and> (\<exists>c' s' st' m'.
        put_contract_sign demo_env completed_state ''c1''
            (sign_request ''Pa'' ''ua'' ''10'' ''c1'' ''s1'')
          = (ok (SignData ''c1'' ''s1'' (Some True) (Some True)), s')
        \<and> contracts s' ''c1'' = Some c'
        \<and> find (\<lambda>st. st_id st = Some ''s1'') (c_steps c') = Some st'
        \<and> st_completed st' = Some True
        \<and> st_completedAt st' = Some ''172''
        \<and> st_signatures st' = Some m'
        \<and> map_of m' ''Pa''
            = Some (Signed \<lparr>sg_signature = ''Pa:10uac1s1'', sg_timestamp = ''10'',
                             sg_pubKey = ''Pa'', sg_message = ''10uac1s1'',
                             sg_signed_at = ''170''\<rparr>)
        \<and> map_of m' ''Pb''
            = Some (Signed \<lparr>sg_signature = ''Pb:8ubc1s1'', sg_timestamp = ''8'',
                             sg_pubKey = ''Pb'', sg_message = ''8ubc1s1'',
                             sg_signed_at = ''172''\<rparr>))"
proof -
  let ?au = "\<lparr>a_message = ''10uac1'', a_signature = ''Pa:10uac1'', a_pubKey = ''Pa'',
              a_userUUID = ''ua'', a_timestamp = ''10''\<rparr>"
  let ?rq = "sign_request ''Pa'' ''ua'' ''10'' ''c1'' ''s1''"
  let ?c = "demo_contract\<lparr>c_steps := [completed_step]\<rparr>"
  let ?m = "[(''Pa'', Signed \<lparr>sg_signature = ''Pa:7uac1s1'', sg_timestamp = ''7'',
                                 sg_pubKey = ''Pa'', sg_message = ''7uac1s1'',
                                 sg_signed_at = ''171''\<rparr>),
               (''Pb'', Signed \<lparr>sg_signature = ''Pb:8ubc1s1'', sg_timestamp = ''8'',
                                 sg_pubKey = ''Pb'', sg_message = ''8ubc1s1'',
                                 sg_signed_at = ''172''\<rparr>)]"
  have gate: "verifySessionlessAuth demo_env ?rq (Some ''c1'') = Some (Inr ?au)"
    by (simp add: verifySessionlessAuth_def truthy_def str_def Let_def demo_defs)
  have load: "loadContractFromBDO demo_env completed_state ''c1'' = (Some ?c, completed_state)"
    by (simp add: loadContractFromBDO_def loadContract_def truthy_def demo_defs)
  have part: "a_pubKey ?au \<in> set (c_participants ?c)"
    by (simp add: demo_defs)
  have fields: "truthy (rq_stepId ?rq)" "truthy (rq_stepSignature ?rq)"
    by (simp_all add: truthy_def demo_defs)
  have found: "find (\<lambda>st. st_id st = rq_stepId ?rq) (c_steps ?c) = Some completed_step"
    by (simp add: demo_defs)
  have ver: "stepSignatureVerifies demo_env ?rq ''c1''"
    by (simp add: stepSignatureVerifies_def stepMessage_def str_def demo_defs)
  have sigs: "st_signatures completed_step = Some ?m"
    by (simp add: demo_defs)
  have wr: "e_localWriteOk demo_env"
    by (simp add: demo_defs)
  have completed: "st_completed completed_step = Some True"
    by (simp add: demo_defs)
  have vals: "rq_stepId ?rq = Some ''s1''" "str (rq_stepId ?rq) = ''s1''"
    "str (rq_stepSignature ?rq) = ''Pa:10uac1s1''"
    "str (rq_timestamp ?rq) = ''10''" "stepMessage ?rq ''c1'' = ''10uac1s1''"
    "e_clock demo_env 0 = ''170''" "c_uuid ?c = ''c1''"
    "truthy (st_magicSpell completed_step)" "st_completedAt completed_step = Some ''172''"
    by (simp_all add: stepMessage_def str_def truthy_def demo_defs)
  from sign_completed_step_accepted
         [OF gate load part fields found ver sigs wr completed]
  obtain c' s' st' m' where
    "put_contract_sign demo_env completed_state ''c1'' ?rq
       = (ok (SignData ''c1'' ''s1'' (Some True) (Some True)), s')"
    "contracts s' ''c1'' = Some c'"
    "find (\<lambda>st. st_id st = Some ''s1'') (c_steps c') = Some st'"
    "st_completed st' = Some True"
    "st_completedAt st' = Some ''172''"
    "st_signatures st' = Some m'"
    "map_of m' ''Pa''
       = Some (Signed \<lparr>sg_signature = ''Pa:10uac1s1'', sg_timestamp = ''10'',
                        sg_pubKey = ''Pa'', sg_message = ''10uac1s1'',
                        sg_signed_at = ''170''\<rparr>)"
    "\<forall>q. q \<noteq> ''Pa'' \<longrightarrow> map_of m' q = map_of ?m q"
    by (auto simp: vals)
  moreover from this have "map_of m' ''Pb''
       = Some (Signed \<lparr>sg_signature = ''Pb:8ubc1s1'', sg_timestamp = ''8'',
                        sg_pubKey = ''Pb'', sg_message = ''8ubc1s1'',
                        sg_signed_at = ''172''\<rparr>)"
    by simp
  ultimately show ?thesis
    using completed by blast
qed

text \<open>
  C1 as stated fails: signing a step that is already completed is answered 200,
  not rejected, and the caller's record on that step is replaced.
\<close>

theorem sign_completed_step_counterexample:
  "map_option (\<lambda>c. map st_completed (c_steps c)) (contracts completed_state ''c1'')
     = Some [Some True]
   \<and> fst (put_contract_sign demo_env completed_state ''c1''
           (sign_request ''Pa'' ''ua'' ''10'' ''c1'' ''s1''))
       = ok (SignData ''c1'' ''s1'' (Some True) (Some True))
   \<and> map_option (\<lambda>c. map st_signatures (c_steps c))
        (contracts (snd (put_contract_sign demo_env completed_state ''c1''
           (sign_request ''Pa'' ''ua'' ''10'' ''c1'' ''s1''))) ''c1'')
       = Some [Some [(''Pa'', Signed \<lparr>sg_signature = ''Pa:10uac1s1'', sg_timestamp = ''10'',
                                    sg_pubKey = ''Pa'', sg_message = ''10uac1s1'',
                                    sg_signed_at = ''170''\<rparr>),
                 (''Pb'', Signed \<lparr>sg_signature = ''Pb:8ubc1s1'', sg_timestamp = ''8'',
                                    sg_pubKey = ''Pb'', sg_message = ''8ubc1s1'',
                                    sg_signed_at = ''172''\<rparr>)]]"
  by (simp add: model_defs demo_defs)


subsection \<open>Absent entries of the signature map\<close>

text \<open>
  C10. The completion test compares each participant's entry with \<^verbatim>\<open>null\<close> and
  with nothing else, so an entry that is absent counts as signed. When a sign
  request passes its checks on a step that is not yet completed, the stored
  step has the signature map found with the caller's record written under the
  caller's key (every other entry as found, absent ones still absent), and it
  is completed exactly when no other participant's entry in the map found is
  \<^verbatim>\<open>null\<close>: participants whose entry is a record or absent do not hold the
  completion back, a participant whose entry is \<^verbatim>\<open>null\<close> does. So on a step whose
  map lacks entries, one signature completes the step although not every
  participant has a record. The instances below are a step put in place by an
  update with an empty map, and the step of a new contract.
\<close>

theorem sign_absent_entries_complete:
  assumes gate: "verifySessionlessAuth e rq (Some uuid) = Some (Inr au)"
    and load: "loadContractFromBDO e s uuid = (Some c, s1)"
    and part: "a_pubKey au \<in> set (c_participants c)"
    and fields: "truthy (rq_stepId rq)" "truthy (rq_stepSignature rq)"
    and found: "find (\<lambda>st. st_id st = rq_stepId rq) (c_steps c) = Some st"
    and ver: "stepSignatureVerifies e rq uuid"
    and sigs: "st_signatures st = Some m"
    and wr: "e_localWriteOk e"
    and pending: "st_completed st \<noteq> Some True"
  shows "\<exists>c' s'.
      (let m' = AList.update (a_pubKey au)
                  (Signed \<lparr>sg_signature = str (rq_stepSignature rq),
                           sg_timestamp = str (rq_timestamp rq),
                           sg_pubKey = a_pubKey au,
                           sg_message = stepMessage rq uuid,
                           sg_signed_at = e_clock e 0\<rparr>) m;
           completes = (\<forall>p\<in>set (c_participants c).
                          p \<noteq> a_pubKey au \<longrightarrow> map_of m p \<noteq> Some Null);
           st' = st\<lparr>st_signatures := Some m',
                    st_completed := (if completes then Some True else st_completed st),
                    st_completedAt := (if completes then Some (e_clock e 1)
                                       else st_completedAt st)\<rparr>
       in put_contract_sign e s uuid rq =
            (ok (SignData uuid (str (rq_stepId rq)) (st_completed st')
                   (if completes then Some (truthy (st_magicSpell st)) else st_completed st)), s')
          \<and> contracts s' (c_uuid c) = Some c'
          \<and> find (\<lambda>st. st_id st = rq_stepId rq) (c_steps c') = Some st'
          \<and> (\<forall>q. q \<noteq> a_pubKey au \<longrightarrow> map_of m' q = map_of m q))"
proof -
  let ?st' = "addSignature e au (str (rq_stepSignature rq)) (stepMessage rq uuid)
                (c_participants c) m st"
  let ?rec = "Signed \<lparr>sg_signature = str (rq_stepSignature rq),
                       sg_timestamp = str (rq_timestamp rq),
                       sg_pubKey = a_pubKey au,
                       sg_message = stepMessage rq uuid,
                       sg_signed_at = e_clock e 0\<rparr>"
  from gate have ts: "a_timestamp au = str (rq_timestamp rq)"
    by (auto dest: verifySessionlessAuth_Inr)
  from put_contract_sign_success[OF gate load part fields found ver sigs wr] obtain c' s2 where
    res: "put_contract_sign e s uuid rq =
           (ok (SignData uuid (str (rq_stepId rq)) (st_completed ?st') (magicTriggered ?st')), s2)"
    and st: "contracts s2 = (contracts s)(c_uuid c \<mapsto> c')"
    and fd: "find (\<lambda>st. st_id st = rq_stepId rq) (c_steps c') = Some ?st'"
    by blast
  have others: "(\<forall>p\<in>set (c_participants c). map_of (AList.update (a_pubKey au) ?rec m) p \<noteq> Some Null)
      \<longleftrightarrow> (\<forall>p\<in>set (c_participants c). p \<noteq> a_pubKey au \<longrightarrow> map_of m p \<noteq> Some Null)"
    by (auto simp: update_conv')
  have stored: "contracts s2 (c_uuid c) = Some c'"
    using st by simp
  have frame: "\<forall>q. q \<noteq> a_pubKey au \<longrightarrow> map_of (AList.update (a_pubKey au) ?rec m) q = map_of m q"
    by (simp add: update_conv')
  have eq: "?st' =
      (let completes = (\<forall>p\<in>set (c_participants c).
                          p \<noteq> a_pubKey au \<longrightarrow> map_of m p \<noteq> Some Null)
       in st\<lparr>st_signatures := Some (AList.update (a_pubKey au) ?rec m),
              st_completed := (if completes then Some True else st_completed st),
              st_completedAt := (if completes then Some (e_clock e 1)
                                 else st_completedAt st)\<rparr>)"
    using pending unfolding addSignature_eq ts by (simp add: Let_def others)
  have flag: "st_completed ?st' = Some True \<longleftrightarrow>
      (\<forall>p\<in>set (c_participants c). p \<noteq> a_pubKey au \<longrightarrow> map_of m p \<noteq> Some Null)"
    using pending unfolding eq by (simp add: Let_def)
  have mt: "magicTriggered ?st' =
      (if (\<forall>p\<in>set (c_participants c). p \<noteq> a_pubKey au \<longrightarrow> map_of m p \<noteq> Some Null)
       then Some (truthy (st_magicSpell st)) else st_completed st)"
    unfolding magicTriggered_addSignature flag using pending unfolding eq
    by (auto simp: Let_def)
  have res': "put_contract_sign e s uuid rq =
      (ok (SignData uuid (str (rq_stepId rq)) (st_completed ?st')
         (if (\<forall>p\<in>set (c_participants c). p \<noteq> a_pubKey au \<longrightarrow> map_of m p \<noteq> Some Null)
          then Some (truthy (st_magicSpell st)) else st_completed st)), s2)"
    using res unfolding mt .
  show ?thesis
    apply (intro exI[of _ c'] exI[of _ s2])
    unfolding Let_def
    apply (intro conjI)
       apply (simp add: res' eq Let_def)
      apply (rule stored)
     apply (simp add: fd eq Let_def)
    apply (rule frame)
    done
qed

theorem sign_absent_entries_complete_witness:
  "loadContractFromBDO demo_env replaced_state ''c1'' = (Some replaced_contract, replaced_state)
   \<and> st_signatures replaced_step = Some []
   \<and> c_participants replaced_contract = [''Pa'', ''Pb'']
   \<and> (\<exists>c' s'.
        put_contract_sign demo_env replaced_state ''c1''
            (sign_request ''Pa'' ''ua'' ''9'' ''c1'' ''s2'')
          = (ok (SignData ''c1'' ''s2'' (Some True) (Some False)), s')
        \<and> contracts s' ''c1'' = Some c'
        \<and> find (\<lambda>st. st_id st = Some ''s2'') (c_steps c')
            = Some (replaced_step
                \<lparr>st_signatures :=
                   Some [(''Pa'', Signed \<lparr>sg_signature = ''Pa:9uac1s2'', sg_timestamp = ''9'',
                                           sg_pubKey = ''Pa'', sg_message = ''9uac1s2'',
                                           sg_signed_at = ''170''\<rparr>)],
                 st_completed := Some True, st_completedAt := Some ''1700''\<rparr>))
   \<and> st_signatures demo_step = Some [(''Pa'', Null), (''Pb'', Null)]
   \<and> (\<exists>c' s'.
        put_contract_sign demo_env demo_state ''c1''
            (sign_request ''Pa'' ''ua'' ''9'' ''c1'' ''s1'')
          = (ok (SignData ''c1'' ''s1'' (Some False) (Some False)), s')
        \<and> contracts s' ''c1'' = Some c'
        \<and> find (\<lambda>st. st_id st = Some ''s1'') (c_steps c')
            = Some (demo_step
                \<lparr>st_signatures :=
                   Some [(''Pa'', Signed \<lparr>sg_signature = ''Pa:9uac1s1'', sg_timestamp = ''9'',
                                           sg_pubKey = ''Pa'', sg_message = ''9uac1s1'',
                                           sg_signed_at = ''170''\<rparr>),
                         (''Pb'', Null)]\<rparr>))"
proof -
  let ?au = "\<lparr>a_message = ''9uac1'', a_signature = ''Pa:9uac1'', a_pubKey = ''Pa'',
              a_userUUID = ''ua'', a_timestamp = ''9''\<rparr>"
  let ?rq = "sign_request ''Pa'' ''ua'' ''9'' ''c1'' ''s2''"
  let ?rq1 = "sign_request ''Pa'' ''ua'' ''9'' ''c1'' ''s1''"
  have gate: "verifySessionlessAuth demo_env ?rq (Some ''c1'') = Some (Inr ?au)"
    by (simp add: verifySessionlessAuth_def truthy_def str_def Let_def demo_defs)
  have gate1: "verifySessionlessAuth demo_env ?rq1 (Some ''c1'') = Some (Inr ?au)"
    by (simp add: verifySessionlessAuth_def truthy_def str_def Let_def demo_defs)
  have load: "loadContractFromBDO demo_env replaced_state ''c1''
      = (Some replaced_contract, replaced_state)"
    by (simp add: model_defs demo_defs)
  have load1: "loadContractFromBDO demo_env demo_state ''c1'' = (Some demo_contract, demo_state)"
    by (simp add: loadContractFromBDO_def loadContract_def truthy_def demo_defs)
  have part: "a_pubKey ?au \<in> set (c_participants replaced_contract)"
    by (simp add: demo_defs)
  have part1: "a_pubKey ?au \<in> set (c_participants demo_contract)"
    by (simp add: demo_defs)
  have fields: "truthy (rq_stepId ?rq)" "truthy (rq_stepSignature ?rq)"
    by (simp_all add: truthy_def demo_defs)
  have fields1: "truthy (rq_stepId ?rq1)" "truthy (rq_stepSignature ?rq1)"
    by (simp_all add: truthy_def demo_defs)
  have found: "find (\<lambda>st. st_id st = rq_stepId ?rq) (c_steps replaced_contract) = Some replaced_step"
    by (simp add: demo_defs)
  have found1: "find (\<lambda>st. st_id st = rq_stepId ?rq1) (c_steps demo_contract) = Some demo_step"
    by (simp add: demo_defs)
  have ver: "stepSignatureVerifies demo_env ?rq ''c1''"
    by (simp add: stepSignatureVerifies_def stepMessage_def str_def demo_defs)
  have ver1: "stepSignatureVerifies demo_env ?rq1 ''c1''"
    by (simp add: stepSignatureVerifies_def stepMessage_def str_def demo_defs)
  have sigs: "st_signatures replaced_step = Some []"
    by (simp add: demo_defs)
  have sigs1: "st_signatures demo_step = Some [(''Pa'', Null), (''Pb'', Null)]"
    by (simp add: demo_defs)
  have wr: "e_localWriteOk demo_env"
    by (simp add: demo_defs)
  have pending: "st_completed replaced_step \<noteq> Some True"
    by (simp add: demo_defs)
  have pending1: "st_completed demo_step \<noteq> Some True"
    by (simp add: demo_defs)
  have vals: "rq_stepId ?rq = Some ''s2''" "rq_stepId ?rq1 = Some ''s1''"
    "str (rq_stepSignature ?rq) = ''Pa:9uac1s2''" "str (rq_stepSignature ?rq1) = ''Pa:9uac1s1''"
    "str (rq_timestamp ?rq) = ''9''" "str (rq_timestamp ?rq1) = ''9''"
    "stepMessage ?rq ''c1'' = ''9uac1s2''" "stepMessage ?rq1 ''c1'' = ''9uac1s1''"
    "e_clock demo_env 0 = ''170''" "e_clock demo_env (Suc 0) = ''1700''"
    "c_uuid replaced_contract = ''c1''" "c_uuid demo_contract = ''c1''"
    "\<not> truthy (st_magicSpell replaced_step)"
    "c_participants replaced_contract = [''Pa'', ''Pb'']"
    "c_participants demo_contract = [''Pa'', ''Pb'']"
    "st_completed demo_step = Some False"
    by (simp_all add: stepMessage_def str_def truthy_def demo_defs)
  from sign_absent_entries_complete [OF gate load part fields found ver sigs wr pending]
  have first: "\<exists>c' s'.
        put_contract_sign demo_env replaced_state ''c1'' ?rq
          = (ok (SignData ''c1'' ''s2'' (Some True) (Some False)), s')
        \<and> contracts s' ''c1'' = Some c'
        \<and> find (\<lambda>st. st_id st = Some ''s2'') (c_steps c')
            = Some (replaced_step
                \<lparr>st_signatures :=
                   Some [(''Pa'', Signed \<lparr>sg_signature = ''Pa:9uac1s2'', sg_timestamp = ''9'',
                                           sg_pubKey = ''Pa'', sg_message = ''9uac1s2'',
                                           sg_signed_at = ''170''\<rparr>)],
                 st_completed := Some True, st_completedAt := Some ''1700''\<rparr>)"
    by (auto simp: vals Let_def)
  from sign_absent_entries_complete [OF gate1 load1 part1 fields1 found1 ver1 sigs1 wr pending1]
  have second: "\<exists>c' s'.
        put_contract_sign demo_env demo_state ''c1'' ?rq1
          = (ok (SignData ''c1'' ''s1'' (Some False) (Some False)), s')
        \<and> contracts s' ''c1'' = Some c'
        \<and> find (\<lambda>st. st_id st = Some ''s1'') (c_steps c')
            = Some (demo_step
                \<lparr>st_signatures :=
                   Some [(''Pa'', Signed \<lparr>sg_signature = ''Pa:9uac1s1'', sg_timestamp = ''9'',
                                           sg_pubKey = ''Pa'', sg_message = ''9uac1s1'',
                                           sg_signed_at = ''170''\<rparr>),
                         (''Pb'', Null)]\<rparr>)"
    by (auto simp: vals Let_def)
  from load sigs vals(14) first sigs1 second show ?thesis
    by blast
qed


subsection \<open>Status of a failed endpoint signature\<close>

lemma verifySessionlessAuth_outcome:
  "verifySessionlessAuth e rq (Some uuid) =
     (if \<not> (truthy (rq_signature rq) \<and> truthy (rq_timestamp rq) \<and> truthy (rq_userUUID rq)
             \<and> truthy (rq_pubKey rq))
      then Some (Inl (fail 401 MissingAuthFields))
      else case e_verifySignature e (str (rq_signature rq))
                  (str (rq_timestamp rq) @ str (rq_userUUID rq) @ uuid) (rq_pubKey rq) of
             None \<Rightarrow> None
           | Some verified \<Rightarrow>
               if \<not> verified then Some (Inl (fail 401 InvalidSignature))
               else Some (Inr \<lparr>a_message = str (rq_timestamp rq) @ str (rq_userUUID rq) @ uuid,
                               a_signature = str (rq_signature rq),
                               a_pubKey = str (rq_pubKey rq), a_userUUID = str (rq_userUUID rq),
                               a_timestamp = str (rq_timestamp rq)\<rparr>))"
  by (cases "uuid = []") (auto simp: verifySessionlessAuth_def Let_def truthy_def
        split: option.splits)

lemma verifySessionlessAuth_outcome_None:
  "verifySessionlessAuth e rq None =
     (if \<not> (truthy (rq_signature rq) \<and> truthy (rq_timestamp rq) \<and> truthy (rq_userUUID rq)
             \<and> truthy (rq_pubKey rq))
      then Some (Inl (fail 401 MissingAuthFields))
      else case e_verifySignature e (str (rq_signature rq))
                  (str (rq_timestamp rq) @ str (rq_userUUID rq)) (rq_pubKey rq) of
             None \<Rightarrow> None
           | Some verified \<Rightarrow>
               if \<not> verified then Some (Inl (fail 401 InvalidSignature))
               else Some (Inr \<lparr>a_message = str (rq_timestamp rq) @ str (rq_userUUID rq),
                               a_signature = str (rq_signature rq),
                               a_pubKey = str (rq_pubKey rq), a_userUUID = str (rq_userUUID rq),
                               a_timestamp = str (rq_timestamp rq)\<rparr>))"
  by (auto simp: verifySessionlessAuth_def Let_def truthy_def split: option.splits)

text \<open>
  C8 (as amended). What a failed verification of the endpoint signature is
  answered depends on the route and on how the verifier fails. On the four
  contract routes (create, update, sign, delete) a request that lacks one of
  \<^verbatim>\<open>signature\<close>, \<^verbatim>\<open>timestamp\<close>, \<^verbatim>\<open>userUUID\<close>, \<^verbatim>\<open>pubKey\<close> is answered 401 (missing
  authentication fields); with the four fields present, a signature that the
  verifier reports as not matching \<^verbatim>\<open>timestamp + userUUID\<close> (followed by the
  contract UUID on the last three) is answered 401 'Invalid signature', and a
  signature on which the verifier throws is answered 500 with the failure
  message of the route. On user create a missing signature, or one the verifier
  reports as not matching \<^verbatim>\<open>timestamp + pubKey\<close>, is answered 403 'Authentication
  failed', and a throw of the verifier is answered 500 'Failed to create user'.
  On user fetch of a stored user a missing signature, or one the verifier
  reports as not matching \<^verbatim>\<open>timestamp + uuid\<close> under the stored key, is answered
  403 'Authentication failed', and a throw of the verifier is answered 404
  'User not found'. In every one of these cases nothing is written.
\<close>

theorem auth_failure_status:
  "(let present = (truthy (rq_signature rq) \<and> truthy (rq_timestamp rq)
                   \<and> truthy (rq_userUUID rq) \<and> truthy (rq_pubKey rq));
        v0 = e_verifySignature e (str (rq_signature rq))
               (str (rq_timestamp rq) @ str (rq_userUUID rq)) (rq_pubKey rq);
        v1 = e_verifySignature e (str (rq_signature rq))
               (str (rq_timestamp rq) @ str (rq_userUUID rq) @ uuid) (rq_pubKey rq)
    in (\<not> present \<longrightarrow>
          post_contract e s rq = (fail 401 MissingAuthFields, s)
          \<and> put_contract e s uuid rq = (fail 401 MissingAuthFields, s)
          \<and> put_contract_sign e s uuid rq = (fail 401 MissingAuthFields, s)
          \<and> delete_contract e s uuid rq = (fail 401 MissingAuthFields, s))
     \<and> (present \<and> v0 = Some False \<longrightarrow>
          post_contract e s rq = (fail 401 InvalidSignature, s))
     \<and> (present \<and> v0 = None \<longrightarrow>
          post_contract e s rq = (fail 500 FailedToCreateContract, s))
     \<and> (present \<and> v1 = Some False \<longrightarrow>
          put_contract e s uuid rq = (fail 401 InvalidSignature, s)
          \<and> put_contract_sign e s uuid rq = (fail 401 InvalidSignature, s)
          \<and> delete_contract e s uuid rq = (fail 401 InvalidSignature, s))
     \<and> (present \<and> v1 = None \<longrightarrow>
          put_contract e s uuid rq = (fail 500 FailedToUpdateContract, s)
          \<and> put_contract_sign e s uuid rq = (fail 500 FailedToAddSignature, s)
          \<and> delete_contract e s uuid rq = (fail 500 FailedToDeleteContract, s)))
   \<and> (let vc = e_verifySignature e (str (rq_signature rq))
                 (js_plus (rq_timestamp rq) (rq_pubKey rq)) (rq_pubKey rq)
      in (\<not> truthy (rq_signature rq) \<or> vc = Some False \<longrightarrow>
            put_user_create e s rq = (fail 403 AuthenticationFailed, s))
       \<and> (truthy (rq_signature rq) \<and> vc = None \<longrightarrow>
            put_user_create e s rq = (fail 500 FailedToCreateUser, s)))
   \<and> (users s uid = Some u \<longrightarrow>
       (let vf = e_verifySignature e (str (rq_signature rq))
                   (js_plus (rq_timestamp rq) (Some uid)) (u_pubKey u)
        in (\<not> truthy (rq_signature rq) \<or> vf = Some False \<longrightarrow>
              get_user e s uid rq = (fail 403 AuthenticationFailed, s))
         \<and> (truthy (rq_signature rq) \<and> vf = None \<longrightarrow>
              get_user e s uid rq = (fail 404 UserNotFound, s))))"
proof -
  have contract_routes:
    "verifySessionlessAuth e rq (Some uuid) = Some (Inl r) \<Longrightarrow>
       put_contract e s uuid rq = (r, s) \<and> put_contract_sign e s uuid rq = (r, s)
       \<and> delete_contract e s uuid rq = (r, s)" for r
    by (simp add: put_contract_def put_contract_sign_def delete_contract_def)
  have contract_routes_throw:
    "verifySessionlessAuth e rq (Some uuid) = None \<Longrightarrow>
       put_contract e s uuid rq = (fail 500 FailedToUpdateContract, s)
       \<and> put_contract_sign e s uuid rq = (fail 500 FailedToAddSignature, s)
       \<and> delete_contract e s uuid rq = (fail 500 FailedToDeleteContract, s)"
    by (simp add: put_contract_def put_contract_sign_def delete_contract_def)
  have create_route:
    "verifySessionlessAuth e rq None = Some (Inl r) \<Longrightarrow> post_contract e s rq = (r, s)" for r
    by (simp add: post_contract_def)
  have create_route_throw:
    "verifySessionlessAuth e rq None = None \<Longrightarrow>
       post_contract e s rq = (fail 500 FailedToCreateContract, s)"
    by (simp add: post_contract_def)
  have contracts: "(let present = (truthy (rq_signature rq) \<and> truthy (rq_timestamp rq)
                   \<and> truthy (rq_userUUID rq) \<and> truthy (rq_pubKey rq));
        v0 = e_verifySignature e (str (rq_signature rq))
               (str (rq_timestamp rq) @ str (rq_userUUID rq)) (rq_pubKey rq);
        v1 = e_verifySignature e (str (rq_signature rq))
               (str (rq_timestamp rq) @ str (rq_userUUID rq) @ uuid) (rq_pubKey rq)
    in (\<not> present \<longrightarrow>
          post_contract e s rq = (fail 401 MissingAuthFields, s)
          \<and> put_contract e s uuid rq = (fail 401 MissingAuthFields, s)
          \<and> put_contract_sign e s uuid rq = (fail 401 MissingAuthFields, s)
          \<and> delete_contract e s uuid rq = (fail 401 MissingAuthFields, s))
     \<and> (present \<and> v0 = Some False \<longrightarrow>
          post_contract e s rq = (fail 401 InvalidSignature, s))
     \<and> (present \<and> v0 = None \<longrightarrow>
          post_contract e s rq = (fail 500 FailedToCreateContract, s))
     \<and> (present \<and> v1 = Some False \<longrightarrow>
          put_contract e s uuid rq = (fail 401 InvalidSignature, s)
          \<and> put_contract_sign e s uuid rq = (fail 401 InvalidSignature, s)
          \<and> delete_contract e s uuid rq = (fail 401 InvalidSignature, s))
     \<and> (present \<and> v1 = None \<longrightarrow>
          put_contract e s uuid rq = (fail 500 FailedToUpdateContract, s)
          \<and> put_contract_sign e s uuid rq = (fail 500 FailedToAddSignature, s)
          \<and> delete_contract e s uuid rq = (fail 500 FailedToDeleteContract, s)))"
    unfolding Let_def
  proof (intro conjI impI)
    assume miss: "\<not> (truthy (rq_signature rq) \<and> truthy (rq_timestamp rq)
                   \<and> truthy (rq_userUUID rq) \<and> truthy (rq_pubKey rq))"
    then have g0: "verifySessionlessAuth e rq None = Some (Inl (fail 401 MissingAuthFields))"
      and g1: "verifySessionlessAuth e rq (Some uuid) = Some (Inl (fail 401 MissingAuthFields))"
      by (simp_all add: verifySessionlessAuth_outcome verifySessionlessAuth_outcome_None)
    show "post_contract e s rq = (fail 401 MissingAuthFields, s)"
      using create_route [OF g0] .
    show "put_contract e s uuid rq = (fail 401 MissingAuthFields, s)"
      "put_contract_sign e s uuid rq = (fail 401 MissingAuthFields, s)"
      "delete_contract e s uuid rq = (fail 401 MissingAuthFields, s)"
      using contract_routes [OF g1] by simp_all
  next
    assume "(truthy (rq_signature rq) \<and> truthy (rq_timestamp rq)
               \<and> truthy (rq_userUUID rq) \<and> truthy (rq_pubKey rq))
          \<and> e_verifySignature e (str (rq_signature rq))
               (str (rq_timestamp rq) @ str (rq_userUUID rq)) (rq_pubKey rq) = Some False"
    then have "verifySessionlessAuth e rq None = Some (Inl (fail 401 InvalidSignature))"
      by (simp add: verifySessionlessAuth_outcome_None)
    then show "post_contract e s rq = (fail 401 InvalidSignature, s)"
      by (rule create_route)
  next
    assume "(truthy (rq_signature rq) \<and> truthy (rq_timestamp rq)
               \<and> truthy (rq_userUUID rq) \<and> truthy (rq_pubKey rq))
          \<and> e_verifySignature e (str (rq_signature rq))
               (str (rq_timestamp rq) @ str (rq_userUUID rq)) (rq_pubKey rq) = None"
    then have "verifySessionlessAuth e rq None = None"
      by (simp add: verifySessionlessAuth_outcome_None)
    then show "post_contract e s rq = (fail 500 FailedToCreateContract, s)"
      by (rule create_route_throw)
  next
    assume "(truthy (rq_signature rq) \<and> truthy (rq_timestamp rq)
               \<and> truthy (rq_userUUID rq) \<and> truthy (rq_pubKey rq))
          \<and> e_verifySignature e (str (rq_signature rq))
               (str (rq_timestamp rq) @ str (rq_userUUID rq) @ uuid) (rq_pubKey rq) = Some False"
    then have g: "verifySessionlessAuth e rq (Some uuid) = Some (Inl (fail 401 InvalidSignature))"
      by (simp add: verifySessionlessAuth_outcome)
    show "put_contract e s uuid rq = (fail 401 InvalidSignature, s)"
      "put_contract_sign e s uuid rq = (fail 401 InvalidSignature, s)"
      "delete_contract e s uuid rq = (fail 401 InvalidSignature, s)"
      using contract_routes [OF g] by simp_all
  next
    assume "(truthy (rq_signature rq) \<and> truthy (rq_timestamp rq)
               \<and> truthy (rq_userUUID rq) \<and> truthy (rq_pubKey rq))
          \<and> e_verifySignature e (str (rq_signature rq))
               (str (rq_timestamp rq) @ str (rq_userUUID rq) @ uuid) (rq_pubKey rq) = None"
    then have g: "verifySessionlessAuth e rq (Some uuid) = None"
      by (simp add: verifySessionlessAuth_outcome)
    show "put_contract e s uuid rq = (fail 500 FailedToUpdateContract, s)"
      "put_contract_sign e s uuid rq = (fail 500 FailedToAddSignature, s)"
      "delete_contract e s uuid rq = (fail 500 FailedToDeleteContract, s)"
      using contract_routes_throw [OF g] by simp_all
  qed
  have create: "(let vc = e_verifySignature e (str (rq_signature rq))
                 (js_plus (rq_timestamp rq) (rq_pubKey rq)) (rq_pubKey rq)
      in (\<not> truthy (rq_signature rq) \<or> vc = Some False \<longrightarrow>
            put_user_create e s rq = (fail 403 AuthenticationFailed, s))
       \<and> (truthy (rq_signature rq) \<and> vc = None \<longrightarrow>
            put_user_create e s rq = (fail 500 FailedToCreateUser, s)))"
    by (auto simp: put_user_create_def Let_def)
  have fetch: "users s uid = Some u \<longrightarrow>
       (let vf = e_verifySignature e (str (rq_signature rq))
                   (js_plus (rq_timestamp rq) (Some uid)) (u_pubKey u)
        in (\<not> truthy (rq_signature rq) \<or> vf = Some False \<longrightarrow>
              get_user e s uid rq = (fail 403 AuthenticationFailed, s))
         \<and> (truthy (rq_signature rq) \<and> vf = None \<longrightarrow>
              get_user e s uid rq = (fail 404 UserNotFound, s)))"
    by (auto simp: get_user_def Let_def)
  from contracts create fetch show ?thesis
    by (intro conjI)
qed

theorem auth_failure_status_witness:
  "(let s = demo_state\<lparr>users := [''u1'' \<mapsto> \<lparr>u_uuid = ''u1'', u_pubKey = Some ''Pa'',
                                             u_createdAt = ''170'', u_updatedAt = ''170''\<rparr>]\<rparr>;
        wrong = (signed_request ''Pa'' ''ua'' ''9'' ''c1'')\<lparr>rq_signature := Some ''Px:9uac1''\<rparr>;
        garbled = (signed_request ''Pa'' ''ua'' ''9'' ''c1'')\<lparr>rq_signature := Some ''bad''\<rparr>
    in post_contract demo_env s empty_request = (fail 401 MissingAuthFields, s)
     \<and> put_contract demo_env s ''c1'' empty_request = (fail 401 MissingAuthFields, s)
     \<and> put_contract_sign demo_env s ''c1'' empty_request = (fail 401 MissingAuthFields, s)
     \<and> delete_contract demo_env s ''c1'' empty_request = (fail 401 MissingAuthFields, s)
     \<and> put_user_create demo_env s empty_request = (fail 403 AuthenticationFailed, s)
     \<and> get_user demo_env s ''u1'' empty_request = (fail 403 AuthenticationFailed, s)
     \<and> demo_verify ''Px:9uac1'' ''9ua'' (Some ''Pa'') = Some False
     \<and> demo_verify ''Px:9uac1'' ''9uac1'' (Some ''Pa'') = Some False
     \<and> demo_verify ''Px:9uac1'' ''9Pa'' (Some ''Pa'') = Some False
     \<and> demo_verify ''Px:9uac1'' ''9u1'' (Some ''Pa'') = Some False
     \<and> post_contract demo_env s wrong = (fail 401 InvalidSignature, s)
     \<and> put_contract demo_env s ''c1'' wrong = (fail 401 InvalidSignature, s)
     \<and> put_contract_sign demo_env s ''c1'' wrong = (fail 401 InvalidSignature, s)
     \<and> delete_contract demo_env s ''c1'' wrong = (fail 401 InvalidSignature, s)
     \<and> put_user_create demo_env s wrong = (fail 403 AuthenticationFailed, s)
     \<and> get_user demo_env s ''u1'' wrong = (fail 403 AuthenticationFailed, s)
     \<and> demo_verify ''bad'' ''9ua'' (Some ''Pa'') = None
     \<and> demo_verify ''bad'' ''9uac1'' (Some ''Pa'') = None
     \<and> demo_verify ''bad'' ''9Pa'' (Some ''Pa'') = None
     \<and> demo_verify ''bad'' ''9u1'' (Some ''Pa'') = None
     \<and> post_contract demo_env s garbled = (fail 500 FailedToCreateContract, s)
     \<and> put_contract demo_env s ''c1'' garbled = (fail 500 FailedToUpdateContract, s)
     \<and> put_contract_sign demo_env s ''c1'' garbled = (fail 500 FailedToAddSignature, s)
     \<and> delete_contract demo_env s ''c1'' garbled = (fail 500 FailedToDeleteContract, s)
     \<and> put_user_create demo_env s garbled = (fail 500 FailedToCreateUser, s)
     \<and> get_user demo_env s ''u1'' garbled = (fail 404 UserNotFound, s))"
proof -
  let ?u = "\<lparr>u_uuid = ''u1'', u_pubKey = Some ''Pa'', u_createdAt = ''170'', u_updatedAt = ''170''\<rparr>"
  let ?s = "demo_state\<lparr>users := [''u1'' \<mapsto> ?u]\<rparr>"
  let ?wrong = "(signed_request ''Pa'' ''ua'' ''9'' ''c1'')\<lparr>rq_signature := Some ''Px:9uac1''\<rparr>"
  let ?garbled = "(signed_request ''Pa'' ''ua'' ''9'' ''c1'')\<lparr>rq_signature := Some ''bad''\<rparr>"
  have ev: "e_verifySignature demo_env = demo_verify"
    by (simp add: demo_env_def)
  have us: "users ?s ''u1'' = Some ?u" "u_pubKey ?u = Some ''Pa''"
    by simp_all
  have wv: "demo_verify ''Px:9uac1'' ''9ua'' (Some ''Pa'') = Some False"
    "demo_verify ''Px:9uac1'' ''9uac1'' (Some ''Pa'') = Some False"
    "demo_verify ''Px:9uac1'' ''9Pa'' (Some ''Pa'') = Some False"
    "demo_verify ''Px:9uac1'' ''9u1'' (Some ''Pa'') = Some False"
    by (simp_all add: demo_verify_def demo_sign_def)
  have gv: "demo_verify ''bad'' ''9ua'' (Some ''Pa'') = None"
    "demo_verify ''bad'' ''9uac1'' (Some ''Pa'') = None"
    "demo_verify ''bad'' ''9Pa'' (Some ''Pa'') = None"
    "demo_verify ''bad'' ''9u1'' (Some ''Pa'') = None"
    by (simp_all add: demo_verify_def)
  have rqs: "rq_signature empty_request = None"
    "rq_signature ?wrong = Some ''Px:9uac1''" "rq_signature ?garbled = Some ''bad''"
    "rq_timestamp ?wrong = Some ''9''" "rq_timestamp ?garbled = Some ''9''"
    "rq_userUUID ?wrong = Some ''ua''" "rq_userUUID ?garbled = Some ''ua''"
    "rq_pubKey ?wrong = Some ''Pa''" "rq_pubKey ?garbled = Some ''Pa''"
    by (simp_all add: signed_request_def empty_request_def)
  from auth_failure_status [of empty_request demo_env "''c1''" ?s "''u1''" ?u] us
  have a: "post_contract demo_env ?s empty_request = (fail 401 MissingAuthFields, ?s)
     \<and> put_contract demo_env ?s ''c1'' empty_request = (fail 401 MissingAuthFields, ?s)
     \<and> put_contract_sign demo_env ?s ''c1'' empty_request = (fail 401 MissingAuthFields, ?s)
     \<and> delete_contract demo_env ?s ''c1'' empty_request = (fail 401 MissingAuthFields, ?s)
     \<and> put_user_create demo_env ?s empty_request = (fail 403 AuthenticationFailed, ?s)
     \<and> get_user demo_env ?s ''u1'' empty_request = (fail 403 AuthenticationFailed, ?s)"
    by (simp add: Let_def rqs truthy_def)
  from auth_failure_status [of ?wrong demo_env "''c1''" ?s "''u1''" ?u] us wv
  have b: "post_contract demo_env ?s ?wrong = (fail 401 InvalidSignature, ?s)
     \<and> put_contract demo_env ?s ''c1'' ?wrong = (fail 401 InvalidSignature, ?s)
     \<and> put_contract_sign demo_env ?s ''c1'' ?wrong = (fail 401 InvalidSignature, ?s)
     \<and> delete_contract demo_env ?s ''c1'' ?wrong = (fail 401 InvalidSignature, ?s)
     \<and> put_user_create demo_env ?s ?wrong = (fail 403 AuthenticationFailed, ?s)
     \<and> get_user demo_env ?s ''u1'' ?wrong = (fail 403 AuthenticationFailed, ?s)"
    by (simp add: Let_def rqs ev truthy_def js_plus_def str_def)
  from auth_failure_status [of ?garbled demo_env "''c1''" ?s "''u1''" ?u] us gv
  have c: "post_contract demo_env ?s ?garbled = (fail 500 FailedToCreateContract, ?s)
     \<and> put_contract demo_env ?s ''c1'' ?garbled = (fail 500 FailedToUpdateContract, ?s)
     \<and> put_contract_sign demo_env ?s ''c1'' ?garbled = (fail 500 FailedToAddSignature, ?s)
     \<and> delete_contract demo_env ?s ''c1'' ?garbled = (fail 500 FailedToDeleteContract, ?s)
     \<and> put_user_create demo_env ?s ?garbled = (fail 500 FailedToCreateUser, ?s)
     \<and> get_user demo_env ?s ''u1'' ?garbled = (fail 404 UserNotFound, ?s)"
    by (simp add: Let_def rqs ev truthy_def js_plus_def str_def)
  from a b c wv gv show ?thesis
    unfolding Let_def by (intro conjI) simp_all
qed

text \<open>
  C8 as stated fails on the user routes: a create-user request that carries a
  well-formed signature made with another key, which the verifier reports as
  not matching, is answered 403, not 401; so is a fetch of a stored user with
  such a signature.
\<close>

theorem user_create_status_counterexample:
  "e_verifySignature demo_env (str (rq_signature wrong_user_request))
       (js_plus (rq_timestamp wrong_user_request) (rq_pubKey wrong_user_request))
       (rq_pubKey wrong_user_request) = Some False
   \<and> status (fst (put_user_create demo_env empty_state wrong_user_request)) = 403
   \<and> status (fst (put_user_create demo_env empty_state wrong_user_request)) \<noteq> 401
   \<and> snd (put_user_create demo_env empty_state wrong_user_request) = empty_state"
  by (simp add: model_defs demo_defs)


subsection \<open>Remote failures\<close>

lemma loadContractFromBDO_fallback:
  "e_getBDO e = None \<Longrightarrow> fst (loadContractFromBDO e s uuid) = contracts s uuid"
  by (auto simp: loadContractFromBDO_def loadContract_def split: option.splits prod.splits)

lemma saveContractToBDO_offline:
  assumes "e_createUser e = None" and "saveContractToBDO e s c = (Some c', s')"
  shows "c_bdoUuid c' = c_bdoUuid c"
    and "\<And>ks. e_generateKeys e = Some ks \<Longrightarrow> e_mappingReadOk e \<Longrightarrow> e_mappingWriteOk e
           \<Longrightarrow> c_pubKey c' = Some (k_pubKey ks)"
  using assms
  unfolding saveContractToBDO_def
  by (auto simp: Let_def saveContractPubKeyMapping_def split: option.splits prod.splits
      bool.splits if_splits dest!: saveContract_cases)

text \<open>
  C9. No outcome of the remote object store reaches a client. A save goes
  through whenever the local write does, a load never fails, and a load with the
  remote unreachable returns the local document. In particular, with
  \<^verbatim>\<open>bdo.createUser\<close> failing, a create request that passes the endpoint check and
  validation is answered 200 with the contract, the contract is in the local
  store without a remote record id (and with the minted public key when key
  generation and the mapping write succeed), and a following read returns that
  same contract whatever the remote does.
\<close>

theorem create_survives_remote_outage:
  assumes gate: "verifySessionlessAuth e rq None = Some (Inr au)"
    and valid: "validateContract (newContract e rq au) = None"
    and outage: "e_createUser e = None"
    and wr: "e_localWriteOk e"
  shows "(\<exists>c s'. post_contract e s rq = (ok (ContractData c), s')
            \<and> c_uuid c = e_generateUUID e 0
            \<and> contracts s' (c_uuid c) = Some c
            \<and> c_bdoUuid c = None
            \<and> (\<forall>ks. e_generateKeys e = Some ks \<and> e_mappingReadOk e \<and> e_mappingWriteOk e
                   \<longrightarrow> c_pubKey c = Some (k_pubKey ks))
            \<and> (\<forall>e'. get_contract e' s' (c_uuid c) = (ok (ContractData c), s')))
     \<and> (\<forall>s0 c0. fst (saveContractToBDO e s0 c0) \<noteq> None)
     \<and> (\<forall>e' s0 u. e_getBDO e' = None \<longrightarrow> fst (loadContractFromBDO e' s0 u) = contracts s0 u)"
proof (intro conjI allI impI)
  let ?c0 = "newContract e rq au"
  let ?c1 = "?c0\<lparr>c_steps := map (initSignatures (c_participants ?c0)) (c_steps ?c0)\<rparr>"
  from wr obtain c s' where sv: "saveContractToBDO e s ?c1 = (Some c, s')"
    using saveContractToBDO_total by blast
  have res: "post_contract e s rq = (ok (ContractData c), s')"
    using gate valid sv by (simp add: post_contract_def Let_def)
  have uuid0: "c_uuid ?c0 = e_generateUUID e 0" "c_bdoUuid ?c0 = None"
    by (simp_all add: newContract_def Let_def split: prod.splits)
  from saveContractToBDO_frame[OF sv] have uuid: "c_uuid c = e_generateUUID e 0"
    using uuid0 by simp
  from saveContractToBDO_Some(2)[OF sv] have stored: "contracts s' (c_uuid c) = Some c"
    using uuid uuid0 by simp
  from saveContractToBDO_offline(1)[OF outage sv] have nobdo: "c_bdoUuid c = None"
    using uuid0 by simp
  have keyed: "\<forall>ks. e_generateKeys e = Some ks \<and> e_mappingReadOk e \<and> e_mappingWriteOk e
                   \<longrightarrow> c_pubKey c = Some (k_pubKey ks)"
    using saveContractToBDO_offline(2)[OF outage sv] by blast
  have "\<forall>e'. get_contract e' s' (c_uuid c) = (ok (ContractData c), s')"
    using stored nobdo
    by (simp add: get_contract_def loadContractFromBDO_local truthy_def)
  with res uuid stored nobdo keyed
  show "\<exists>c s'. post_contract e s rq = (ok (ContractData c), s')
            \<and> c_uuid c = e_generateUUID e 0
            \<and> contracts s' (c_uuid c) = Some c
            \<and> c_bdoUuid c = None
            \<and> (\<forall>ks. e_generateKeys e = Some ks \<and> e_mappingReadOk e \<and> e_mappingWriteOk e
                   \<longrightarrow> c_pubKey c = Some (k_pubKey ks))
            \<and> (\<forall>e'. get_contract e' s' (c_uuid c) = (ok (ContractData c), s'))"
    by blast
next
  fix s0 c0
  from wr obtain c' s' where "saveContractToBDO e s0 c0 = (Some c', s')"
    using saveContractToBDO_total by blast
  then show "fst (saveContractToBDO e s0 c0) \<noteq> None"
    by simp
next
  fix e' :: env and s0 u
  assume "e_getBDO e' = None"
  then show "fst (loadContractFromBDO e' s0 u) = contracts s0 u"
    by (rule loadContractFromBDO_fallback)
qed

theorem create_survives_remote_outage_witness:
  "e_createUser offline_env = None \<and> e_scgCreateUser offline_env = None
   \<and> e_getBDO offline_env = None
   \<and> validateContract (newContract offline_env create_request
        \<lparr>a_message = ''9ua'', a_signature = ''Pa:9ua'', a_pubKey = ''Pa'',
         a_userUUID = ''ua'', a_timestamp = ''9''\<rparr>) = None
   \<and> (\<exists>c s'. post_contract offline_env empty_state create_request = (ok (ContractData c), s')
         \<and> c_uuid c = ''u''
         \<and> contracts s' ''u'' = Some c
         \<and> c_bdoUuid c = None
         \<and> c_pubKey c = Some ''K1''
         \<and> get_contract offline_env s' ''u'' = (ok (ContractData c), s'))"
proof -
  let ?au = "\<lparr>a_message = ''9ua'', a_signature = ''Pa:9ua'', a_pubKey = ''Pa'',
              a_userUUID = ''ua'', a_timestamp = ''9''\<rparr>"
  have gate: "verifySessionlessAuth offline_env create_request None = Some (Inr ?au)"
    by (simp add: verifySessionlessAuth_def truthy_def str_def Let_def demo_defs
        create_request_def)
  have valid: "validateContract (newContract offline_env create_request ?au) = None"
    by (simp add: validateContract_def newContract_def truthy_def Let_def demo_defs
        create_request_def)
  have outage: "e_createUser offline_env = None" "e_scgCreateUser offline_env = None"
    "e_getBDO offline_env = None"
    by (simp_all add: demo_defs)
  have wr: "e_localWriteOk offline_env"
    by (simp add: demo_defs)
  have vals: "e_generateUUID offline_env 0 = ''u''"
    "e_generateKeys offline_env = Some \<lparr>k_pubKey = ''K1'', k_privateKey = ''p1''\<rparr>"
    "e_mappingReadOk offline_env" "e_mappingWriteOk offline_env"
    by (simp_all add: demo_defs)
  from create_survives_remote_outage [OF gate valid outage(1) wr, of empty_state]
  obtain c s' where
    "post_contract offline_env empty_state create_request = (ok (ContractData c), s')"
    "c_uuid c = ''u''" "contracts s' ''u'' = Some c" "c_bdoUuid c = None"
    "\<forall>ks. e_generateKeys offline_env = Some ks \<and> e_mappingReadOk offline_env
          \<and> e_mappingWriteOk offline_env \<longrightarrow> c_pubKey c = Some (k_pubKey ks)"
    "\<forall>e'. get_contract e' s' ''u'' = (ok (ContractData c), s')"
    by (auto simp: vals(1))
  moreover from this vals have "c_pubKey c = Some ''K1''"
    by simp
  ultimately show ?thesis
    using outage valid by blast
qed


subsection \<open>The contract's own key\<close>

lemma saveContractToBDO_keys:
  assumes "saveContractToBDO e s c = (Some c', s')"
    and "e_generateKeys e = Some ks" and "e_mappingReadOk e" and "e_mappingWriteOk e"
  shows "c_pubKey c' = Some (k_pubKey ks)
     \<and> contractPubKeyMap s' (c_uuid c) = Some (k_pubKey ks)
     \<and> mappingFile s' (c_uuid c) = Some (k_pubKey ks)
     \<and> keyFiles s' (k_pubKey ks) = Some ks"
  using assms
  unfolding saveContractToBDO_def
  by (auto simp: Let_def saveContractPubKeyMapping_def saveKeys_def
      split: option.splits prod.splits bool.splits if_splits dest!: saveContract_cases)

lemma saveContractToBDO_bdoUuid:
  assumes "saveContractToBDO e s c = (Some c', s')"
    and "e_generateKeys e = Some ks" and "e_mappingReadOk e" and "e_mappingWriteOk e"
    and "e_createUser e = Some b"
  shows "c_bdoUuid c' = Some b"
  using assms
  unfolding saveContractToBDO_def
  by (auto simp: Let_def saveContractPubKeyMapping_def saveKeys_def
      split: option.splits prod.splits bool.splits if_splits dest!: saveContract_cases)

lemma post_contract_saved:
  assumes "post_contract e s rq = (r, s')" and "status r = 200"
  shows "\<exists>c0 c'. saveContractToBDO e s c0 = (Some c', s') \<and> r = ok (ContractData c')"
  using assms
  unfolding post_contract_def
  by (auto simp: fail_def Let_def verifySessionlessAuth_def
      split: sum.splits option.splits prod.splits if_splits)

lemma put_contract_saved:
  assumes "put_contract e s uuid rq = (r, s')" and "status r = 200"
  shows "\<exists>c s1 c'. loadContractFromBDO e s uuid = (Some c, s1)
      \<and> validateContract (applyUpdates e rq c) = None
      \<and> saveContractToBDO e s1 (applyUpdates e rq c) = (Some c', s')
      \<and> r = ok (ContractData c')"
  using assms
  unfolding put_contract_def
  by (auto simp: fail_def Let_def verifySessionlessAuth_def
      split: sum.splits option.splits prod.splits if_splits)

lemma put_contract_sign_saved:
  assumes run: "put_contract_sign e s uuid rq = (r, s')" and success: "status r = 200"
  shows "\<exists>c s1 c1 c'. loadContractFromBDO e s uuid = (Some c, s1) \<and> c_uuid c1 = c_uuid c
      \<and> saveContractToBDO e s1 c1 = (Some c', s')"
proof -
  from put_contract_sign_200[OF run success] obtain au c s1 st m where
    pre: "verifySessionlessAuth e rq (Some uuid) = Some (Inr au)"
      "loadContractFromBDO e s uuid = (Some c, s1)"
      "a_pubKey au \<in> set (c_participants c)"
      "truthy (rq_stepId rq)" "truthy (rq_stepSignature rq)"
      "find (\<lambda>st. st_id st = rq_stepId rq) (c_steps c) = Some st"
      "stepSignatureVerifies e rq uuid"
      "st_signatures st = Some m"
      "e_localWriteOk e"
    by blast
  from put_contract_sign_success[OF pre] obtain c' s2 c1 where
    "snd (put_contract_sign e s uuid rq) = s2"
    "c_uuid c1 = c_uuid c" "saveContractToBDO e s1 c1 = (Some c', s2)"
    by force
  with run pre(2) show ?thesis
    by auto
qed

text \<open>
  Every write that reaches the save (create, update, sign) mints a key pair:
  when key generation and the write of the mapping succeed, the stored contract
  carries the public key minted in this very request, the UUID-to-pubKey binding
  (cache and file) points to it, and its key file is stored. Nothing on the way
  looks up the key the contract already has.
\<close>

lemma saves_stamp_minted_key:
  assumes minted: "e_generateKeys e = Some ks" and rd: "e_mappingReadOk e"
    and wr: "e_mappingWriteOk e"
  shows "(post_contract e s rq = (r, s') \<and> status r = 200 \<longrightarrow>
           (\<exists>c'. r = ok (ContractData c') \<and> contracts s' (c_uuid c') = Some c'
              \<and> c_pubKey c' = Some (k_pubKey ks)
              \<and> contractPubKeyMap s' (c_uuid c') = Some (k_pubKey ks)
              \<and> mappingFile s' (c_uuid c') = Some (k_pubKey ks)
              \<and> keyFiles s' (k_pubKey ks) = Some ks))
     \<and> (put_contract e s uuid rq = (r, s') \<and> status r = 200 \<longrightarrow>
           (\<exists>c'. r = ok (ContractData c') \<and> contracts s' (c_uuid c') = Some c'
              \<and> c_pubKey c' = Some (k_pubKey ks)
              \<and> contractPubKeyMap s' (c_uuid c') = Some (k_pubKey ks)
              \<and> mappingFile s' (c_uuid c') = Some (k_pubKey ks)
              \<and> keyFiles s' (k_pubKey ks) = Some ks))
     \<and> (put_contract_sign e s uuid rq = (r, s') \<and> status r = 200 \<longrightarrow>
           (\<exists>c c'. fst (loadContractFromBDO e s uuid) = Some c \<and> c_uuid c' = c_uuid c
              \<and> contracts s' (c_uuid c') = Some c'
              \<and> c_pubKey c' = Some (k_pubKey ks)
              \<and> contractPubKeyMap s' (c_uuid c') = Some (k_pubKey ks)
              \<and> mappingFile s' (c_uuid c') = Some (k_pubKey ks)
              \<and> keyFiles s' (k_pubKey ks) = Some ks))"
proof (intro conjI impI)
  assume "post_contract e s rq = (r, s') \<and> status r = 200"
  then obtain c0 c' where sv: "saveContractToBDO e s c0 = (Some c', s')"
    and r: "r = ok (ContractData c')"
    using post_contract_saved by blast
  from saveContractToBDO_frame[OF sv] have "c_uuid c' = c_uuid c0" by simp
  with saveContractToBDO_keys[OF sv minted rd wr] saveContractToBDO_Some(2)[OF sv] r
  show "\<exists>c'. r = ok (ContractData c') \<and> contracts s' (c_uuid c') = Some c'
              \<and> c_pubKey c' = Some (k_pubKey ks)
              \<and> contractPubKeyMap s' (c_uuid c') = Some (k_pubKey ks)
              \<and> mappingFile s' (c_uuid c') = Some (k_pubKey ks)
              \<and> keyFiles s' (k_pubKey ks) = Some ks"
    by (intro exI[of _ c']) simp
next
  assume "put_contract e s uuid rq = (r, s') \<and> status r = 200"
  then obtain c s1 c' where sv: "saveContractToBDO e s1 (applyUpdates e rq c) = (Some c', s')"
    and r: "r = ok (ContractData c')"
    using put_contract_saved by blast
  from saveContractToBDO_frame[OF sv] have "c_uuid c' = c_uuid (applyUpdates e rq c)" by simp
  with saveContractToBDO_keys[OF sv minted rd wr] saveContractToBDO_Some(2)[OF sv] r
  show "\<exists>c'. r = ok (ContractData c') \<and> contracts s' (c_uuid c') = Some c'
              \<and> c_pubKey c' = Some (k_pubKey ks)
              \<and> contractPubKeyMap s' (c_uuid c') = Some (k_pubKey ks)
              \<and> mappingFile s' (c_uuid c') = Some (k_pubKey ks)
              \<and> keyFiles s' (k_pubKey ks) = Some ks"
    by (intro exI[of _ c']) simp
next
  assume "put_contract_sign e s uuid rq = (r, s') \<and> status r = 200"
  then obtain c s1 c1 c' where ld: "loadContractFromBDO e s uuid = (Some c, s1)"
    and u: "c_uuid c1 = c_uuid c"
    and sv: "saveContractToBDO e s1 c1 = (Some c', s')"
    using put_contract_sign_saved by blast
  from saveContractToBDO_frame[OF sv] have "c_uuid c' = c_uuid c1" by simp
  with saveContractToBDO_keys[OF sv minted rd wr] saveContractToBDO_Some(2)[OF sv] ld u
  show "\<exists>c c'. fst (loadContractFromBDO e s uuid) = Some c \<and> c_uuid c' = c_uuid c
              \<and> contracts s' (c_uuid c') = Some c'
              \<and> c_pubKey c' = Some (k_pubKey ks)
              \<and> contractPubKeyMap s' (c_uuid c') = Some (k_pubKey ks)
              \<and> mappingFile s' (c_uuid c') = Some (k_pubKey ks)
              \<and> keyFiles s' (k_pubKey ks) = Some ks"
    by (intro exI[of _ c] exI[of _ c']) simp
qed

text \<open>
  C2. A contract's public key and its UUID-to-pubKey binding are to be fixed at
  first persistence and reused by every later write; the repository's notes on
  the persistence fix say the same (\<^verbatim>\<open>saveContractToBDO\<close> checks \<^verbatim>\<open>contractPubKeyMap\<close>
  for existing keys before generating new ones, and contracts maintain the same
  pubKey throughout their lifecycle). The code does not do that:
  \<^verbatim>\<open>saveContractToBDO\<close> calls \<^verbatim>\<open>sessionless.generateKeys\<close> and rebinds the mapping on
  every save. Here a contract is created with the key \<open>K1\<close> and bound to it; an
  update of its title at a later request, where key generation yields \<open>K2\<close>, is
  answered 200 and leaves the contract and the binding (cache and file) with
  \<open>K2\<close>, and so does a signature of its step by \<open>Pa\<close>.
\<close>

theorem key_rotates_on_later_write:
  "map_option c_pubKey (contracts created_state ''u'') = Some (Some ''K1'')
   \<and> contractPubKeyMap created_state ''u'' = Some ''K1''
   \<and> mappingFile created_state ''u'' = Some ''K1''
   \<and> status (fst (put_contract later_env created_state ''u'' (title_request ''u''))) = 200
   \<and> map_option c_pubKey
        (contracts (snd (put_contract later_env created_state ''u'' (title_request ''u''))) ''u'')
       = Some (Some ''K2'')
   \<and> contractPubKeyMap (snd (put_contract later_env created_state ''u'' (title_request ''u'')))
        ''u'' = Some ''K2''
   \<and> mappingFile (snd (put_contract later_env created_state ''u'' (title_request ''u'')))
        ''u'' = Some ''K2''
   \<and> status (fst (put_contract_sign later_env created_state ''u''
        (sign_request ''Pa'' ''ua'' ''9'' ''u'' ''ux''))) = 200
   \<and> map_option c_pubKey
        (contracts (snd (put_contract_sign later_env created_state ''u''
           (sign_request ''Pa'' ''ua'' ''9'' ''u'' ''ux''))) ''u'')
       = Some (Some ''K2'')
   \<and> contractPubKeyMap (snd (put_contract_sign later_env created_state ''u''
        (sign_request ''Pa'' ''ua'' ''9'' ''u'' ''ux''))) ''u'' = Some ''K2''
   \<and> mappingFile (snd (put_contract_sign later_env created_state ''u''
        (sign_request ''Pa'' ''ua'' ''9'' ''u'' ''ux''))) ''u'' = Some ''K2''"
  by (simp add: model_defs demo_defs)

text \<open>
  So the public key and the binding observed after the later write are not
  those observed after the creation.
\<close>

theorem key_rotates_on_later_write_witness:
  "map_option c_pubKey
      (contracts (snd (put_contract later_env created_state ''u'' (title_request ''u''))) ''u'')
     \<noteq> map_option c_pubKey (contracts created_state ''u'')
   \<and> contractPubKeyMap (snd (put_contract later_env created_state ''u'' (title_request ''u'')))
        ''u'' \<noteq> contractPubKeyMap created_state ''u''
   \<and> mappingFile (snd (put_contract later_env created_state ''u'' (title_request ''u'')))
        ''u'' \<noteq> mappingFile created_state ''u''
   \<and> map_option c_pubKey
        (contracts (snd (put_contract_sign later_env created_state ''u''
           (sign_request ''Pa'' ''ua'' ''9'' ''u'' ''ux''))) ''u'')
     \<noteq> map_option c_pubKey (contracts created_state ''u'')
   \<and> contractPubKeyMap (snd (put_contract_sign later_env created_state ''u''
        (sign_request ''Pa'' ''ua'' ''9'' ''u'' ''ux''))) ''u''
     \<noteq> contractPubKeyMap created_state ''u''
   \<and> mappingFile (snd (put_contract_sign later_env created_state ''u''
        (sign_request ''Pa'' ''ua'' ''9'' ''u'' ''ux''))) ''u''
     \<noteq> mappingFile created_state ''u''"
  by (simp add: key_rotates_on_later_write)


subsection \<open>What an update changes\<close>

lemma verifySessionlessAuth_ignores:
  "verifySessionlessAuth e
     (rq\<lparr>rq_participants := ps, rq_product_uuid := pu, rq_bdo_location := bl,
         rq_stepId := sid, rq_stepSignature := ssg, rq_other := other\<rparr>) cu
   = verifySessionlessAuth e rq cu"
  by (simp add: verifySessionlessAuth_def Let_def split: option.splits)

lemma applyUpdates_ignores:
  "applyUpdates e
     (rq\<lparr>rq_participants := ps, rq_product_uuid := pu, rq_bdo_location := bl,
         rq_stepId := sid, rq_stepSignature := ssg, rq_other := other\<rparr>) c
   = applyUpdates e rq c"
  by (simp add: applyUpdates_def)

lemma put_contract_ignores:
  "put_contract e s uuid
     (rq\<lparr>rq_participants := ps, rq_product_uuid := pu, rq_bdo_location := bl,
         rq_stepId := sid, rq_stepSignature := ssg, rq_other := other\<rparr>)
   = put_contract e s uuid rq"
  unfolding put_contract_def verifySessionlessAuth_ignores applyUpdates_ignores
  by (rule refl)

text \<open>
  What an update answered 200 does to the stored contract, the stamps of the
  save apart: the fields \<^verbatim>\<open>title\<close>, \<^verbatim>\<open>description\<close>, \<^verbatim>\<open>steps\<close> and \<^verbatim>\<open>status\<close> that the
  request defines are overlaid on the loaded contract (a \<^verbatim>\<open>null\<close> description or
  status is stored as \<^verbatim>\<open>null\<close>; a \<^verbatim>\<open>null\<close> title or \<^verbatim>\<open>steps\<close> fails the validation, so
  it never comes with a 200), \<^verbatim>\<open>updatedAt\<close> is refreshed, \<^verbatim>\<open>uuid\<close>, \<^verbatim>\<open>creator\<close>,
  \<^verbatim>\<open>participants\<close>, the two association ids and \<^verbatim>\<open>createdAt\<close> are those of the
  loaded contract, and every other field of the request (beside the four of the
  endpoint check) is ignored.
\<close>

lemma put_contract_overlay:
  assumes run: "put_contract e s uuid rq = (r, s')" and success: "status r = 200"
  shows "(\<exists>c s1 c'. loadContractFromBDO e s uuid = (Some c, s1)
            \<and> r = ok (ContractData c') \<and> contracts s' (c_uuid c) = Some c'
            \<and> rq_title rq \<noteq> JsNull \<and> rq_steps rq \<noteq> JsNull
            \<and> c_title c' = (case rq_title rq of Defined v \<Rightarrow> Some v | _ \<Rightarrow> c_title c)
            \<and> c_description c'
                = (case rq_description rq of
                     Undefined \<Rightarrow> c_description c | JsNull \<Rightarrow> None | Defined v \<Rightarrow> Some v)
            \<and> c_steps c' = (case rq_steps rq of Defined v \<Rightarrow> v | _ \<Rightarrow> c_steps c)
            \<and> c_status c'
                = (case rq_status rq of
                     Undefined \<Rightarrow> c_status c | JsNull \<Rightarrow> None | Defined v \<Rightarrow> Some v)
            \<and> c_updatedAt c' = e_clock e 0
            \<and> c_uuid c' = c_uuid c \<and> c_creator c' = c_creator c
            \<and> c_participants c' = c_participants c
            \<and> c_productUuid c' = c_productUuid c \<and> c_bdoLocation c' = c_bdoLocation c
            \<and> c_createdAt c' = c_createdAt c)
     \<and> (\<forall>ps pu bl sid ssg other.
           put_contract e s uuid
             (rq\<lparr>rq_participants := ps, rq_product_uuid := pu, rq_bdo_location := bl,
                 rq_stepId := sid, rq_stepSignature := ssg, rq_other := other\<rparr>)
           = put_contract e s uuid rq)"
proof (intro conjI allI)
  from put_contract_saved[OF run success] obtain c s1 c' where
    ld: "loadContractFromBDO e s uuid = (Some c, s1)"
    and sv: "saveContractToBDO e s1 (applyUpdates e rq c) = (Some c', s')"
    and r: "r = ok (ContractData c')"
    and valid: "validateContract (applyUpdates e rq c) = None"
    by blast
  have nn: "rq_title rq \<noteq> JsNull" "rq_steps rq \<noteq> JsNull"
    using valid
    by (auto simp: validateContract_def applyUpdates_def truthy_def Let_def
        split: if_splits)
  have up: "c_uuid (applyUpdates e rq c) = c_uuid c"
    by (simp add: applyUpdates_def)
  have "contracts s' = (contracts s1)(c_uuid c \<mapsto> c')"
    using saveContractToBDO_Some(2)[OF sv] up by simp
  then have stored: "contracts s' (c_uuid c) = Some c'"
    by simp
  have frame: "c_title c' = (case rq_title rq of Defined v \<Rightarrow> Some v | _ \<Rightarrow> c_title c)
      \<and> c_description c'
          = (case rq_description rq of
               Undefined \<Rightarrow> c_description c | JsNull \<Rightarrow> None | Defined v \<Rightarrow> Some v)
      \<and> c_steps c' = (case rq_steps rq of Defined v \<Rightarrow> v | _ \<Rightarrow> c_steps c)
      \<and> c_status c'
          = (case rq_status rq of
               Undefined \<Rightarrow> c_status c | JsNull \<Rightarrow> None | Defined v \<Rightarrow> Some v)
      \<and> c_updatedAt c' = e_clock e 0
      \<and> c_uuid c' = c_uuid c \<and> c_creator c' = c_creator c
      \<and> c_participants c' = c_participants c
      \<and> c_productUuid c' = c_productUuid c \<and> c_bdoLocation c' = c_bdoLocation c
      \<and> c_createdAt c' = c_createdAt c"
    using saveContractToBDO_frame[OF sv] nn
    by (simp add: applyUpdates_def split: jsfield.splits)
  from ld r stored frame nn
  show "\<exists>c s1 c'. loadContractFromBDO e s uuid = (Some c, s1)
            \<and> r = ok (ContractData c') \<and> contracts s' (c_uuid c) = Some c'
            \<and> rq_title rq \<noteq> JsNull \<and> rq_steps rq \<noteq> JsNull
            \<and> c_title c' = (case rq_title rq of Defined v \<Rightarrow> Some v | _ \<Rightarrow> c_title c)
            \<and> c_description c'
                = (case rq_description rq of
                     Undefined \<Rightarrow> c_description c | JsNull \<Rightarrow> None | Defined v \<Rightarrow> Some v)
            \<and> c_steps c' = (case rq_steps rq of Defined v \<Rightarrow> v | _ \<Rightarrow> c_steps c)
            \<and> c_status c'
                = (case rq_status rq of
                     Undefined \<Rightarrow> c_status c | JsNull \<Rightarrow> None | Defined v \<Rightarrow> Some v)
            \<and> c_updatedAt c' = e_clock e 0
            \<and> c_uuid c' = c_uuid c \<and> c_creator c' = c_creator c
            \<and> c_participants c' = c_participants c
            \<and> c_productUuid c' = c_productUuid c \<and> c_bdoLocation c' = c_bdoLocation c
            \<and> c_createdAt c' = c_createdAt c"
    by (intro exI[of _ c] exI[of _ s1] exI[of _ c']) simp
next
  fix ps pu bl sid ssg other
  show "put_contract e s uuid
             (rq\<lparr>rq_participants := ps, rq_product_uuid := pu, rq_bdo_location := bl,
                 rq_stepId := sid, rq_stepSignature := ssg, rq_other := other\<rparr>)
           = put_contract e s uuid rq"
    by (rule put_contract_ignores)
qed

text \<open>
  C7. An update is to overlay \<^verbatim>\<open>title\<close>, \<^verbatim>\<open>description\<close>, \<^verbatim>\<open>steps\<close> and \<^verbatim>\<open>status\<close> (and
  refresh \<^verbatim>\<open>updatedAt\<close>), to ignore every other field of the request, and to leave
  every other field of the persisted contract as it was, \<^verbatim>\<open>pubKey\<close> and the remote
  record id among them; the repository's notes on the persistence fix ask the
  same of the save (existing keys are looked up before new ones are generated,
  and an existing contract is written with \<^verbatim>\<open>bdo.updateBDO()\<close> instead of a new
  remote user). The code overlays and ignores as claimed, but the save that ends
  the update mints a key and creates a remote user each time. Here the contract
  created with the key \<open>K1\<close> and the record id \<open>B1\<close> is sent an update of its title
  that also carries \<^verbatim>\<open>participants\<close> and \<^verbatim>\<open>creator\<close>: the answer is 200, the title is
  the new one, \<^verbatim>\<open>uuid\<close>, \<^verbatim>\<open>creator\<close>, \<^verbatim>\<open>participants\<close>, description, steps, status and
  \<^verbatim>\<open>createdAt\<close> are as before, and the stored contract carries the key \<open>K2\<close> and the
  record id \<open>B2\<close>.
\<close>

theorem update_changes_key_and_record:
  "(\<exists>c c'. contracts created_state ''u'' = Some c
      \<and> contracts (snd (put_contract later_env created_state ''u''
           ((title_request ''u'')\<lparr>rq_participants := Some [''Px''],
                                  rq_other := [(''creator'', ''Px'')]\<rparr>))) ''u'' = Some c'
      \<and> fst (put_contract later_env created_state ''u''
           ((title_request ''u'')\<lparr>rq_participants := Some [''Px''],
                                  rq_other := [(''creator'', ''Px'')]\<rparr>))
          = ok (ContractData c')
      \<and> c_title c = Some ''Deal'' \<and> c_title c' = Some ''New deal''
      \<and> c_uuid c' = c_uuid c \<and> c_creator c' = c_creator c
      \<and> c_participants c' = c_participants c \<and> c_description c' = c_description c
      \<and> c_steps c' = c_steps c \<and> c_status c' = c_status c
      \<and> c_productUuid c' = c_productUuid c \<and> c_bdoLocation c' = c_bdoLocation c
      \<and> c_createdAt c' = c_createdAt c
      \<and> c_pubKey c = Some ''K1'' \<and> c_pubKey c' = Some ''K2''
      \<and> c_bdoUuid c = Some ''B1'' \<and> c_bdoUuid c' = Some ''B2'')"
  by (simp add: model_defs demo_defs)

text \<open>
  So the public key and the remote record id of the persisted contract are
  changed by the update.
\<close>

theorem update_changes_key_and_record_witness:
  "\<exists>c c'. contracts created_state ''u'' = Some c
      \<and> contracts (snd (put_contract later_env created_state ''u''
           ((title_request ''u'')\<lparr>rq_participants := Some [''Px''],
                                  rq_other := [(''creator'', ''Px'')]\<rparr>))) ''u'' = Some c'
      \<and> c_pubKey c' \<noteq> c_pubKey c \<and> c_bdoUuid c' \<noteq> c_bdoUuid c
      \<and> c_participants c' = c_participants c \<and> c_creator c' = c_creator c"
proof -
  from update_changes_key_and_record obtain c c' where
    "contracts created_state ''u'' = Some c"
    "contracts (snd (put_contract later_env created_state ''u''
           ((title_request ''u'')\<lparr>rq_participants := Some [''Px''],
                                  rq_other := [(''creator'', ''Px'')]\<rparr>))) ''u'' = Some c'"
    "c_pubKey c = Some ''K1''" "c_pubKey c' = Some ''K2''"
    "c_bdoUuid c = Some ''B1''" "c_bdoUuid c' = Some ''B2''"
    "c_participants c' = c_participants c" "c_creator c' = c_creator c"
    by blast
  then show ?thesis
    by (intro exI[of _ c] exI[of _ c']) simp
qed


end
